theory Spec2Isabelle
  imports Main "HOL-Library.AList"
begin

section \<open>Python values, exceptions and the consumed capabilities\<close>

text \<open>
  A shallow embedding of \<^verbatim>\<open>src/prefect/results.py\<close>: the result store, the result
  record with its legacy-format adapter, and the persisted result reference.

  Byte strings are lists of characters (a \<^typ>\<open>char\<close> is a byte); a Python \<^verbatim>\<open>str\<close> is
  held as its UTF-8 bytes, so \<^verbatim>\<open>s.encode()\<close> is the identity on the representation.
\<close>

type_synonym bytes = string

text \<open>A \<^verbatim>\<open>uuid.UUID\<close> and a \<^verbatim>\<open>DateTime\<close> are held as their canonical text.\<close>

type_synonym UUID = string
type_synonym DateTime = string

text \<open>Python values: what a result can be and what a parsed JSON document is made of.
  A \<^verbatim>\<open>dict\<close> keeps insertion order and has string keys.\<close>

datatype pyval =
    PNone
  | PBool bool
  | PInt int
  | PStr string
  | PBytes bytes
  | PList "pyval list"
  | PDict "(string \<times> pyval) list"

text \<open>The exception classes the module raises or lets through. All of them derive from
  \<^verbatim>\<open>Exception\<close>; \<^verbatim>\<open>RuntimeError\<close>, \<^verbatim>\<open>SerializationError\<close> and \<^verbatim>\<open>ConfigurationError\<close>
  are unrelated classes. \<open>OSError\<close> stands for whatever a storage backend raises.\<close>

datatype exn =
    AssertionError
  | RuntimeError
  | ValueError
  | TypeError
  | AttributeError
  | KeyError
  | ConfigurationError
  | SerializationError
  | ValidationError
  | PydanticSerializationError
  | OSError

text \<open>A serializer model is its type tag and its remaining fields; what it encodes is
  decided by the serializer implementation, which lives outside this module.\<close>

record Serializer =
  stype :: string
  skwargs :: "(string \<times> pyval) list"

text \<open>A storage block (\<^verbatim>\<open>WritableFileSystem\<close>): its saved document id, its
  \<^verbatim>\<open>_resolve_path\<close> when it has one (directly or through \<^verbatim>\<open>_remote_file_system\<close>),
  and the backing store its paths live in. Two blocks with the same backing store read
  and write the same files.\<close>

record Block =
  block_document_id :: "UUID option"
  resolve_path :: "(string \<Rightarrow> string) option"
  backing :: nat

text \<open>
  Everything the module imports and calls but does not define, as parameters:
  the JSON text codec and the field validators of the model machinery, the serializer
  implementations and their registry, the settings, the block registry and the identity
  of the running thread.
\<close>

record Env =
  json_dumps :: "pyval \<Rightarrow> bytes"
  json_loads :: "bytes \<Rightarrow> pyval option"
  dumps :: "Serializer \<Rightarrow> pyval \<Rightarrow> exn + bytes"
  loads :: "Serializer \<Rightarrow> bytes \<Rightarrow> exn + pyval"
  validate_serializer :: "pyval \<Rightarrow> Serializer option"
  serializer_of_type :: "string \<Rightarrow> exn + Serializer"
  PickleSerializer :: Serializer
  validate_datetime :: "pyval \<Rightarrow> DateTime option"
  validate_uuid :: "pyval \<Rightarrow> UUID option"
  prefect_version_now :: string
  default_holder :: string
  default_result_storage :: Block
  default_persist_setting :: bool
  default_result_serializer :: Serializer
  read_block_document :: "UUID \<Rightarrow> exn + Block"
  uuid4_hex :: "nat \<Rightarrow> string"

text \<open>
  The world outside the process: the files of every backing store, the paths on which a
  backend currently fails, the log of the calls made to the backends, the locks of every
  lock manager (key to holder), and how many storage keys have been minted.
\<close>

datatype io = Read nat string | Write nat string bytes

record World =
  files :: "nat \<Rightarrow> string \<Rightarrow> bytes option"
  faults :: "nat \<Rightarrow> string \<Rightarrow> exn option"
  io_log :: "io list"
  locks :: "nat \<Rightarrow> string \<Rightarrow> string option"
  key_calls :: nat

text \<open>Modelled from the spec: the storage capability (section 6),
  \<^verbatim>\<open>read_path(key) -> bytes | raises\<close> and \<^verbatim>\<open>write_path(key, bytes) -> void | raises\<close>;
  the backends are not part of this module. Every call is logged. A read of a path
  that holds nothing raises, a faulty path raises on every access, and a write that
  raises stores nothing.\<close>

definition read_path :: "World \<Rightarrow> Block \<Rightarrow> string \<Rightarrow> World \<times> (exn + bytes)" where
  "read_path W b key =
     (W\<lparr>io_log := io_log W @ [Read (backing b) key]\<rparr>,
      case faults W (backing b) key of
        Some e \<Rightarrow> Inl e
      | None \<Rightarrow> (case files W (backing b) key of
                   None \<Rightarrow> Inl OSError
                 | Some content \<Rightarrow> Inr content))"

definition write_path :: "World \<Rightarrow> Block \<Rightarrow> string \<Rightarrow> bytes \<Rightarrow> World \<times> (exn + unit)" where
  "write_path W b key content =
     (case faults W (backing b) key of
        Some e \<Rightarrow> (W\<lparr>io_log := io_log W @ [Write (backing b) key content]\<rparr>, Inl e)
      | None \<Rightarrow>
          (W\<lparr>files := (files W)(backing b := (files W (backing b))(key \<mapsto> content)),
             io_log := io_log W @ [Write (backing b) key content]\<rparr>, Inr ()))"

text \<open>Modelled from the spec: the lock manager protocol (section 4.4); the managers
  are not part of this module. A manager maps a locked key to its holder. Acquiring
  succeeds on a free key and on a key the holder already has; on a key of another holder
  it gives false when a timeout was given. With no timeout, acquiring or waiting for a
  key that another holder keeps locked does not return in a sequential run: that is the
  value \<open>None\<close>.\<close>

definition lm_is_locked :: "World \<Rightarrow> nat \<Rightarrow> string \<Rightarrow> bool" where
  "lm_is_locked W lm key = (locks W lm key \<noteq> None)"

definition lm_is_lock_holder :: "World \<Rightarrow> nat \<Rightarrow> string \<Rightarrow> string \<Rightarrow> bool" where
  "lm_is_lock_holder W lm key holder = (locks W lm key = Some holder)"

definition lm_acquire_lock ::
  "World \<Rightarrow> nat \<Rightarrow> string \<Rightarrow> string \<Rightarrow> nat option \<Rightarrow> (World \<times> bool) option" where
  "lm_acquire_lock W lm key holder timeout =
     (case locks W lm key of
        None \<Rightarrow> Some (W\<lparr>locks := (locks W)(lm := (locks W lm)(key \<mapsto> holder))\<rparr>, True)
      | Some h \<Rightarrow>
          if h = holder then Some (W, True)
          else (case timeout of None \<Rightarrow> None | Some t \<Rightarrow> Some (W, False)))"

definition lm_release_lock :: "World \<Rightarrow> nat \<Rightarrow> string \<Rightarrow> string \<Rightarrow> World" where
  "lm_release_lock W lm key holder =
     (if locks W lm key = Some holder
      then W\<lparr>locks := (locks W)(lm := (locks W lm)(key := None))\<rparr>
      else W)"

definition lm_wait_for_lock :: "World \<Rightarrow> nat \<Rightarrow> string \<Rightarrow> nat option \<Rightarrow> bool option" where
  "lm_wait_for_lock W lm key timeout =
     (if lm_is_locked W lm key
      then (case timeout of None \<Rightarrow> None | Some t \<Rightarrow> Some False)
      else Some True)"

section \<open>Result record metadata and result records\<close>

record ResultRecordMetadata =
  storage_key :: "string option"
  expiration :: "DateTime option"
  serializer :: Serializer
  prefect_version :: string
  storage_block_id :: "UUID option"

record ResultRecord =
  metadata :: ResultRecordMetadata
  result :: pyval

subsection \<open>The model machinery: dumping and validating fields\<close>

text \<open>Strict UTF-8 (RFC 3629): the model machinery writes a \<^verbatim>\<open>bytes\<close> value into JSON
  text as a string by decoding it as UTF-8, and raises when that fails.\<close>

fun tail_ok :: "(nat \<times> nat) list \<Rightarrow> bytes \<Rightarrow> bool" where
  "tail_ok [] cs = True"
| "tail_ok (r # rs) [] = False"
| "tail_ok ((lo, hi) # rs) (c # cs) = (lo \<le> of_char c \<and> (of_char c :: nat) \<le> hi \<and> tail_ok rs cs)"

fun utf8_valid :: "bytes \<Rightarrow> bool" where
  "utf8_valid [] = True"
| "utf8_valid (c # cs) =
     (let b = (of_char c :: nat) in
      if b \<le> 127 then utf8_valid cs
      else if 194 \<le> b \<and> b \<le> 223 then tail_ok [(128, 191)] cs \<and> utf8_valid (drop 1 cs)
      else if b = 224 then tail_ok [(160, 191), (128, 191)] cs \<and> utf8_valid (drop 2 cs)
      else if b = 237 then tail_ok [(128, 159), (128, 191)] cs \<and> utf8_valid (drop 2 cs)
      else if 225 \<le> b \<and> b \<le> 239
        then tail_ok [(128, 191), (128, 191)] cs \<and> utf8_valid (drop 2 cs)
      else if b = 240
        then tail_ok [(144, 191), (128, 191), (128, 191)] cs \<and> utf8_valid (drop 3 cs)
      else if 241 \<le> b \<and> b \<le> 243
        then tail_ok [(128, 191), (128, 191), (128, 191)] cs \<and> utf8_valid (drop 3 cs)
      else if b = 244
        then tail_ok [(128, 143), (128, 191), (128, 191)] cs \<and> utf8_valid (drop 3 cs)
      else False)"

definition dump_optional :: "string option \<Rightarrow> pyval" where
  "dump_optional x = (case x of None \<Rightarrow> PNone | Some s \<Rightarrow> PStr s)"

definition dump_serializer :: "Serializer \<Rightarrow> pyval" where
  "dump_serializer s = PDict ((''type'', PStr (stype s)) # skwargs s)"

text \<open>\<^verbatim>\<open>model_dump\<close> of the metadata, the fields in the order of their declaration.\<close>

definition dump_metadata :: "ResultRecordMetadata \<Rightarrow> pyval" where
  "dump_metadata md =
     PDict [(''storage_key'', dump_optional (storage_key md)),
            (''expiration'', dump_optional (expiration md)),
            (''serializer'', dump_serializer (serializer md)),
            (''prefect_version'', PStr (prefect_version md)),
            (''storage_block_id'', dump_optional (storage_block_id md))]"

text \<open>A \<^verbatim>\<open>str\<close> field takes a string, and a byte string that decodes.\<close>

definition validate_str :: "pyval \<Rightarrow> string option" where
  "validate_str v =
     (case v of
        PStr s \<Rightarrow> Some s
      | PBytes b \<Rightarrow> if utf8_valid b then Some b else None
      | _ \<Rightarrow> None)"

text \<open>An \<^verbatim>\<open>Optional\<close> field with default \<^verbatim>\<open>None\<close>: absent and \<^verbatim>\<open>None\<close> give \<^verbatim>\<open>None\<close>.\<close>

definition validate_optional :: "(pyval \<Rightarrow> 'a option) \<Rightarrow> pyval option \<Rightarrow> exn + 'a option" where
  "validate_optional f x =
     (case x of
        None \<Rightarrow> Inr None
      | Some PNone \<Rightarrow> Inr None
      | Some v \<Rightarrow> (case f v of None \<Rightarrow> Inl ValidationError | Some a \<Rightarrow> Inr (Some a)))"

text \<open>A field with a default value: absent gives the default.\<close>

definition validate_default :: "(pyval \<Rightarrow> 'a option) \<Rightarrow> 'a \<Rightarrow> pyval option \<Rightarrow> exn + 'a" where
  "validate_default f dflt x =
     (case x of
        None \<Rightarrow> Inr dflt
      | Some v \<Rightarrow> (case f v of None \<Rightarrow> Inl ValidationError | Some a \<Rightarrow> Inr a))"

text \<open>Validation of \<^verbatim>\<open>ResultRecordMetadata\<close> from a parsed document, field by field
  with the declared types and defaults; unknown fields are ignored.\<close>

definition validate_metadata :: "Env \<Rightarrow> pyval \<Rightarrow> exn + ResultRecordMetadata" where
  "validate_metadata E v =
     (case v of
        PDict d \<Rightarrow>
          (case validate_optional validate_str (map_of d ''storage_key'') of
             Inl e \<Rightarrow> Inl e
           | Inr sk \<Rightarrow>
          (case validate_optional (validate_datetime E) (map_of d ''expiration'') of
             Inl e \<Rightarrow> Inl e
           | Inr ex \<Rightarrow>
          (case validate_default (validate_serializer E) (PickleSerializer E)
                  (map_of d ''serializer'') of
             Inl e \<Rightarrow> Inl e
           | Inr ser \<Rightarrow>
          (case validate_default validate_str (prefect_version_now E)
                  (map_of d ''prefect_version'') of
             Inl e \<Rightarrow> Inl e
           | Inr pv \<Rightarrow>
          (case validate_optional (validate_uuid E) (map_of d ''storage_block_id'') of
             Inl e \<Rightarrow> Inl e
           | Inr bid \<Rightarrow>
               Inr \<lparr>storage_key = sk, expiration = ex, serializer = ser,
                    prefect_version = pv, storage_block_id = bid\<rparr>)))))
      | _ \<Rightarrow> Inl ValidationError)"

definition dump_bytes :: "Env \<Rightarrow> ResultRecordMetadata \<Rightarrow> bytes" where
  "dump_bytes E md = json_dumps E (dump_metadata md)"

definition load_bytes :: "Env \<Rightarrow> bytes \<Rightarrow> exn + ResultRecordMetadata" where
  "load_bytes E data =
     (case json_loads E data of
        None \<Rightarrow> Inl ValidationError
      | Some v \<Rightarrow> validate_metadata E v)"

subsection \<open>The legacy-format adapter\<close>

text \<open>The statement \<^verbatim>\<open>value["metadata"][k] = value.pop(k)\<close>, run when \<^verbatim>\<open>k in value\<close>:
  the right-hand side is evaluated first, then the item assignment on
  \<^verbatim>\<open>value["metadata"]\<close>, which raises \<^verbatim>\<open>TypeError\<close> on anything but a \<^verbatim>\<open>dict\<close>
  (and \<^verbatim>\<open>KeyError\<close> could only come from a missing \<^verbatim>\<open>metadata\<close>).\<close>

definition move_into_metadata ::
  "string \<Rightarrow> (string \<times> pyval) list \<Rightarrow> exn + (string \<times> pyval) list" where
  "move_into_metadata k d =
     (case map_of d k of
        None \<Rightarrow> Inr d
      | Some x \<Rightarrow>
          (let d' = AList.delete k d in
           case map_of d' ''metadata'' of
             None \<Rightarrow> Inl KeyError
           | Some (PDict m) \<Rightarrow>
               Inr (AList.update ''metadata'' (PDict (AList.update k x m)) d')
           | Some _ \<Rightarrow> Inl TypeError))"

definition coerce_old_format :: "pyval \<Rightarrow> exn + pyval" where
  "coerce_old_format v =
     (case v of
        PDict d \<Rightarrow>
          (let d1 = (case map_of d ''data'' of
                       None \<Rightarrow> d
                     | Some x \<Rightarrow> AList.update ''result'' x (AList.delete ''data'' d));
               d2 = (if map_of d1 ''metadata'' = None
                     then AList.update ''metadata'' (PDict []) d1 else d1)
           in case move_into_metadata ''expiration'' d2 of
                Inl e \<Rightarrow> Inl e
              | Inr d3 \<Rightarrow>
             (case move_into_metadata ''serializer'' d3 of
                Inl e \<Rightarrow> Inl e
              | Inr d4 \<Rightarrow>
             (case move_into_metadata ''prefect_version'' d4 of
                Inl e \<Rightarrow> Inl e
              | Inr d5 \<Rightarrow> Inr (PDict d5))))
      | _ \<Rightarrow> Inr v)"

subsection \<open>Validating, serializing and deserializing a record\<close>

text \<open>Validation of a \<^verbatim>\<open>ResultRecord\<close>: the adapter runs before the fields are
  validated; \<^verbatim>\<open>metadata\<close> and \<^verbatim>\<open>result\<close> are required, and \<^verbatim>\<open>result\<close> is taken as
  it is. An exception of the adapter is not turned into a validation error.\<close>

definition validate_record :: "Env \<Rightarrow> pyval \<Rightarrow> exn + ResultRecord" where
  "validate_record E v =
     (case coerce_old_format v of
        Inl e \<Rightarrow> Inl e
      | Inr (PDict d) \<Rightarrow>
          (case map_of d ''metadata'' of
             None \<Rightarrow> Inl ValidationError
           | Some m \<Rightarrow>
          (case validate_metadata E m of
             Inl e \<Rightarrow> Inl e
           | Inr md \<Rightarrow>
          (case map_of d ''result'' of
             None \<Rightarrow> Inl ValidationError
           | Some r \<Rightarrow> Inr \<lparr>metadata = md, result = r\<rparr>)))
      | Inr _ \<Rightarrow> Inl ValidationError)"

definition model_validate_json :: "Env \<Rightarrow> bytes \<Rightarrow> exn + ResultRecord" where
  "model_validate_json E data =
     (case json_loads E data of
        None \<Rightarrow> Inl ValidationError
      | Some v \<Rightarrow> validate_record E v)"

definition serialize_result :: "Env \<Rightarrow> ResultRecord \<Rightarrow> exn + bytes" where
  "serialize_result E r =
     (case dumps E (serializer (metadata r)) (result r) of
        Inl exc \<Rightarrow> Inl SerializationError
      | Inr data \<Rightarrow> Inr data)"

definition serialize_metadata :: "Env \<Rightarrow> ResultRecord \<Rightarrow> bytes" where
  "serialize_metadata E r = dump_bytes E (metadata r)"

text \<open>\<^verbatim>\<open>serialize\<close>: the record with the encoded payload in place of the value, as JSON
  text.\<close>

definition serialize :: "Env \<Rightarrow> ResultRecord \<Rightarrow> exn + bytes" where
  "serialize E r =
     (case serialize_result E r of
        Inl e \<Rightarrow> Inl e
      | Inr data \<Rightarrow>
          if utf8_valid data
          then Inr (json_dumps E (PDict [(''metadata'', dump_metadata (metadata r)),
                                         (''result'', PStr data)]))
          else Inl PydanticSerializationError)"

definition deserialize :: "Env \<Rightarrow> bytes \<Rightarrow> exn + ResultRecord" where
  "deserialize E data =
     (case model_validate_json E data of
        Inl e \<Rightarrow> Inl e
      | Inr instance \<Rightarrow>
          (case result instance of
             PBytes b \<Rightarrow>
               (case loads E (serializer (metadata instance)) b of
                  Inl e \<Rightarrow> Inl e
                | Inr v \<Rightarrow> Inr (instance\<lparr>result := v\<rparr>))
           | PStr s \<Rightarrow>
               (case loads E (serializer (metadata instance)) s of
                  Inl e \<Rightarrow> Inl e
                | Inr v \<Rightarrow> Inr (instance\<lparr>result := v\<rparr>))
           | _ \<Rightarrow> Inr instance))"

definition deserialize_from_result_and_metadata ::
  "Env \<Rightarrow> bytes \<Rightarrow> bytes \<Rightarrow> exn + ResultRecord" where
  "deserialize_from_result_and_metadata E result_bytes metadata_bytes =
     (case load_bytes E metadata_bytes of
        Inl e \<Rightarrow> Inl e
      | Inr result_record_metadata \<Rightarrow>
          (case loads E (serializer result_record_metadata) result_bytes of
             Inl e \<Rightarrow> Inl e
           | Inr v \<Rightarrow> Inr \<lparr>metadata = result_record_metadata, result = v\<rparr>))"

section \<open>The result store\<close>

text \<open>A storage key function takes no argument and may return a new key at every call
  (the default draws a random UUID), or raise: the field \<open>storage_key_fn\<close> gives the
  outcome of the call as a function of the number of keys minted before.\<close>

record ResultStore =
  result_storage :: "Block option"
  metadata_storage :: "Block option"
  lock_manager :: "nat option"
  persist_result :: bool
  cache_result_in_memory :: bool
  serializer :: Serializer
  storage_key_fn :: "nat \<Rightarrow> exn + pyval"

definition DEFAULT_STORAGE_KEY_FN :: "Env \<Rightarrow> nat \<Rightarrow> exn + pyval" where
  "DEFAULT_STORAGE_KEY_FN E n = Inr (PStr (uuid4_hex E n))"

text \<open>\<^verbatim>\<open>ResultStore(result_storage=..., serializer=...)\<close>: the other fields take their
  defaults.\<close>

definition new_ResultStore :: "Env \<Rightarrow> Block option \<Rightarrow> Serializer \<Rightarrow> ResultStore" where
  "new_ResultStore E storage ser =
     \<lparr>result_storage = storage, metadata_storage = None, lock_manager = None,
      persist_result = default_persist_setting E, cache_result_in_memory = True,
      serializer = ser, storage_key_fn = DEFAULT_STORAGE_KEY_FN E\<rparr>"

text \<open>Calling the store's key function mints a key.\<close>

definition mint_key :: "ResultStore \<Rightarrow> World \<Rightarrow> World \<times> (exn + pyval)" where
  "mint_key S W = (W\<lparr>key_calls := Suc (key_calls W)\<rparr>, storage_key_fn S (key_calls W))"

definition result_storage_block_id :: "ResultStore \<Rightarrow> UUID option" where
  "result_storage_block_id S =
     (case result_storage S of None \<Rightarrow> None | Some b \<Rightarrow> block_document_id b)"

text \<open>\<^verbatim>\<open>holder or self.generate_default_holder()\<close>: an absent or empty holder is
  replaced.\<close>

definition holder_or_default :: "Env \<Rightarrow> string option \<Rightarrow> string" where
  "holder_or_default E holder =
     (case holder of
        None \<Rightarrow> default_holder E
      | Some h \<Rightarrow> if h = [] then default_holder E else h)"

subsection \<open>Lock passthroughs\<close>

definition acquire_lock ::
  "Env \<Rightarrow> World \<Rightarrow> ResultStore \<Rightarrow> string \<Rightarrow> string option \<Rightarrow> nat option
     \<Rightarrow> (World \<times> (exn + bool)) option" where
  "acquire_lock E W S key holder timeout =
     (case lock_manager S of
        None \<Rightarrow> Some (W, Inl ConfigurationError)
      | Some lm \<Rightarrow>
          (case lm_acquire_lock W lm key (holder_or_default E holder) timeout of
             None \<Rightarrow> None
           | Some (W', ok) \<Rightarrow> Some (W', Inr ok)))"

definition release_lock ::
  "Env \<Rightarrow> World \<Rightarrow> ResultStore \<Rightarrow> string \<Rightarrow> string option \<Rightarrow> World \<times> (exn + unit)" where
  "release_lock E W S key holder =
     (case lock_manager S of
        None \<Rightarrow> (W, Inl ConfigurationError)
      | Some lm \<Rightarrow> (lm_release_lock W lm key (holder_or_default E holder), Inr ()))"

definition is_locked :: "World \<Rightarrow> ResultStore \<Rightarrow> string \<Rightarrow> exn + bool" where
  "is_locked W S key =
     (case lock_manager S of
        None \<Rightarrow> Inl ConfigurationError
      | Some lm \<Rightarrow> Inr (lm_is_locked W lm key))"

definition is_lock_holder ::
  "Env \<Rightarrow> World \<Rightarrow> ResultStore \<Rightarrow> string \<Rightarrow> string option \<Rightarrow> exn + bool" where
  "is_lock_holder E W S key holder =
     (case lock_manager S of
        None \<Rightarrow> Inl ConfigurationError
      | Some lm \<Rightarrow> Inr (lm_is_lock_holder W lm key (holder_or_default E holder)))"

definition wait_for_lock ::
  "World \<Rightarrow> ResultStore \<Rightarrow> string \<Rightarrow> nat option \<Rightarrow> (exn + bool) option" where
  "wait_for_lock W S key timeout =
     (case lock_manager S of
        None \<Rightarrow> Some (Inl ConfigurationError)
      | Some lm \<Rightarrow>
          (case lm_wait_for_lock W lm key timeout of
             None \<Rightarrow> None
           | Some ok \<Rightarrow> Some (Inr ok)))"

subsection \<open>Existence, reading\<close>

text \<open>\<^verbatim>\<open>_exists\<close>. A backend returns bytes, so \<^verbatim>\<open>content is not None\<close> holds whenever
  \<^verbatim>\<open>read_path\<close> returns. With neither storage set, \<^verbatim>\<open>self.result_storage.read_path\<close>
  raises \<^verbatim>\<open>AttributeError\<close> inside the \<^verbatim>\<open>try\<close>.\<close>

definition ResultStore__exists :: "World \<Rightarrow> ResultStore \<Rightarrow> string \<Rightarrow> World \<times> bool" where
  "ResultStore__exists W S key =
     (case metadata_storage S of
        Some ms \<Rightarrow>
          (case read_path W ms key of
             (W', Inr metadata_content) \<Rightarrow> (W', True)
           | (W', Inl e) \<Rightarrow> (W', False))
      | None \<Rightarrow>
          (case result_storage S of
             None \<Rightarrow> (W, False)
           | Some rs \<Rightarrow>
               (case read_path W rs key of
                  (W', Inr content) \<Rightarrow> (W', True)
                | (W', Inl e) \<Rightarrow> (W', False))))"

definition ResultStore_exists :: "World \<Rightarrow> ResultStore \<Rightarrow> string \<Rightarrow> World \<times> bool" where
  "ResultStore_exists W S key = ResultStore__exists W S key"

text \<open>\<^verbatim>\<open>_read\<close>. The outer \<open>option\<close> is \<open>None\<close> when the wait for the lock does not
  return. \<open>rs\<close> is the result storage after
  \<^verbatim>\<open>if self.result_storage is None: self.result_storage = await get_default_result_storage()\<close>,
  and \<open>S1\<close> the store with it.\<close>

definition ResultStore__read ::
  "Env \<Rightarrow> World \<Rightarrow> ResultStore \<Rightarrow> string \<Rightarrow> string
     \<Rightarrow> ((World \<times> ResultStore) \<times> (exn + ResultRecord)) option" where
  "ResultStore__read E W S key holder =
     (case (if lock_manager S \<noteq> None \<and> is_lock_holder E W S key (Some holder) \<noteq> Inr True
            then wait_for_lock W S key None else Some (Inr True)) of
        None \<Rightarrow> None
      | Some (Inl e) \<Rightarrow> Some ((W, S), Inl e)
      | Some (Inr waited) \<Rightarrow>
          Some
           (let rs = (case result_storage S of
                        None \<Rightarrow> default_result_storage E | Some b \<Rightarrow> b);
                S1 = S\<lparr>result_storage := Some rs\<rparr>
            in case metadata_storage S1 of
                 Some ms \<Rightarrow>
                   (case read_path W ms key of
                      (W1, Inl e) \<Rightarrow> ((W1, S1), Inl e)
                    | (W1, Inr metadata_content) \<Rightarrow>
                   (case load_bytes E metadata_content of
                      Inl e \<Rightarrow> ((W1, S1), Inl e)
                    | Inr md \<Rightarrow>
                   (case storage_key md of
                      None \<Rightarrow> ((W1, S1), Inl AssertionError)
                    | Some sk \<Rightarrow>
                   (case read_path W1 rs sk of
                      (W2, Inl e) \<Rightarrow> ((W2, S1), Inl e)
                    | (W2, Inr result_content) \<Rightarrow>
                        ((W2, S1),
                         deserialize_from_result_and_metadata E result_content
                           metadata_content)))))
               | None \<Rightarrow>
                   (case read_path W rs key of
                      (W1, Inl e) \<Rightarrow> ((W1, S1), Inl e)
                    | (W1, Inr content) \<Rightarrow> ((W1, S1), deserialize E content))))"

definition ResultStore_read ::
  "Env \<Rightarrow> World \<Rightarrow> ResultStore \<Rightarrow> string \<Rightarrow> string option
     \<Rightarrow> ((World \<times> ResultStore) \<times> (exn + ResultRecord)) option" where
  "ResultStore_read E W S key holder =
     ResultStore__read E W S key (holder_or_default E holder)"

subsection \<open>Creating and persisting records\<close>

text \<open>\<^verbatim>\<open>key = key or self.storage_key_fn()\<close>: an absent and an empty key are falsy. The
  metadata model then validates the key as an optional string.\<close>

definition create_result_record ::
  "Env \<Rightarrow> World \<Rightarrow> ResultStore \<Rightarrow> string option \<Rightarrow> pyval \<Rightarrow> DateTime option
     \<Rightarrow> World \<times> (exn + ResultRecord)" where
  "create_result_record E W S key obj expiration' =
     (case (case key of
              None \<Rightarrow> mint_key S W
            | Some k \<Rightarrow> if k = [] then mint_key S W else (W, Inr (PStr k))) of
        (W1, Inl e) \<Rightarrow> (W1, Inl e)
      | (W1, Inr kv) \<Rightarrow>
          (case validate_optional validate_str (Some kv) of
             Inl e \<Rightarrow> (W1, Inl e)
           | Inr sk \<Rightarrow>
               (W1, Inr \<lparr>metadata =
                          \<lparr>storage_key = sk, expiration = expiration',
                           serializer = serializer S,
                           prefect_version = prefect_version_now E,
                           storage_block_id = result_storage_block_id S\<rparr>,
                        result = obj\<rparr>)))"

text \<open>\<^verbatim>\<open>_persist_result_record\<close>. The state is returned on every outcome, so that what an
  exception leaves behind can be told.\<close>

definition ResultStore__persist_result_record ::
  "Env \<Rightarrow> World \<Rightarrow> ResultStore \<Rightarrow> ResultRecord \<Rightarrow> string
     \<Rightarrow> (World \<times> ResultStore) \<times> (exn + unit)" where
  "ResultStore__persist_result_record E W S result_record holder =
     (case storage_key (metadata result_record) of
        None \<Rightarrow> ((W, S), Inl AssertionError)
      | Some key \<Rightarrow>
          if lock_manager S \<noteq> None
             \<and> is_locked W S key = Inr True
             \<and> is_lock_holder E W S key (Some holder) \<noteq> Inr True
          then ((W, S), Inl RuntimeError)
          else
           (let rs = (case result_storage S of
                        None \<Rightarrow> default_result_storage E | Some b \<Rightarrow> b);
                S1 = S\<lparr>result_storage := Some rs\<rparr>
            in case metadata_storage S1 of
                 Some ms \<Rightarrow>
                   (case serialize_result E result_record of
                      Inl e \<Rightarrow> ((W, S1), Inl e)
                    | Inr payload \<Rightarrow>
                   (case write_path W rs key payload of
                      (W1, Inl e) \<Rightarrow> ((W1, S1), Inl e)
                    | (W1, Inr u) \<Rightarrow>
                   (case write_path W1 ms key (serialize_metadata E result_record) of
                      (W2, Inl e) \<Rightarrow> ((W2, S1), Inl e)
                    | (W2, Inr u) \<Rightarrow> ((W2, S1), Inr ()))))
               | None \<Rightarrow>
                   (case serialize E result_record of
                      Inl e \<Rightarrow> ((W, S1), Inl e)
                    | Inr content \<Rightarrow>
                   (case write_path W rs key content of
                      (W1, Inl e) \<Rightarrow> ((W1, S1), Inl e)
                    | (W1, Inr u) \<Rightarrow> ((W1, S1), Inr ())))))"

definition persist_result_record ::
  "Env \<Rightarrow> World \<Rightarrow> ResultStore \<Rightarrow> ResultRecord \<Rightarrow> string option
     \<Rightarrow> (World \<times> ResultStore) \<times> (exn + unit)" where
  "persist_result_record E W S result_record holder =
     ResultStore__persist_result_record E W S result_record (holder_or_default E holder)"

definition ResultStore_write ::
  "Env \<Rightarrow> World \<Rightarrow> ResultStore \<Rightarrow> string option \<Rightarrow> pyval \<Rightarrow> DateTime option
     \<Rightarrow> string option \<Rightarrow> (World \<times> ResultStore) \<times> (exn + unit)" where
  "ResultStore_write E W S key obj expiration' holder =
     (let holder' = holder_or_default E holder
      in case create_result_record E W S key obj expiration' of
           (W1, Inl e) \<Rightarrow> ((W1, S), Inl e)
         | (W1, Inr result_record) \<Rightarrow>
             persist_result_record E W1 S result_record (Some holder'))"

text \<open>Modelled from the spec: the isolation level enumeration (section 6), which
  \<^verbatim>\<open>prefect.transactions\<close> defines outside this module. It has the two members
  \<^verbatim>\<open>READ_COMMITTED\<close> and \<^verbatim>\<open>SERIALIZABLE\<close>, and its members are strings as well (the
  enumeration mixes in \<^verbatim>\<open>str\<close>, the value of a member being its name), so that \<^verbatim>\<open>==\<close>
  holds between a member and the plain string of its name, and between nothing else and a
  member. The argument of \<^verbatim>\<open>supports_isolation_level\<close> is a member or any other Python
  value.\<close>

datatype IsolationLevel = READ_COMMITTED | SERIALIZABLE

datatype level_arg = Member IsolationLevel | Value pyval

definition level_name :: "IsolationLevel \<Rightarrow> string" where
  "level_name m = (case m of READ_COMMITTED \<Rightarrow> ''READ_COMMITTED'' | SERIALIZABLE \<Rightarrow> ''SERIALIZABLE'')"

text \<open>\<^verbatim>\<open>level == IsolationLevel.m\<close>\<close>

definition level_eq :: "level_arg \<Rightarrow> IsolationLevel \<Rightarrow> bool" where
  "level_eq level m =
     (case level of
        Member m' \<Rightarrow> m' = m
      | Value v \<Rightarrow> v = PStr (level_name m))"

definition supports_isolation_level :: "ResultStore \<Rightarrow> level_arg \<Rightarrow> exn + bool" where
  "supports_isolation_level S level =
     (if level_eq level READ_COMMITTED then Inr True
      else if level_eq level SERIALIZABLE then Inr (lock_manager S \<noteq> None)
      else Inl ValueError)"

subsection \<open>Parameters\<close>

text \<open>\<^verbatim>\<open>store_parameters\<close>; \<open>identifier\<close> is the text of the UUID. The attribute
  \<^verbatim>\<open>self.result_storage.write_path\<close> is looked up before the record is serialized.\<close>

definition store_parameters ::
  "Env \<Rightarrow> World \<Rightarrow> ResultStore \<Rightarrow> UUID \<Rightarrow> (string \<times> pyval) list \<Rightarrow> World \<times> (exn + unit)" where
  "store_parameters E W S identifier parameters =
     (let record = \<lparr>metadata =
                      \<lparr>storage_key = Some identifier, expiration = None,
                       serializer = serializer S,
                       prefect_version = prefect_version_now E,
                       storage_block_id = None\<rparr>,
                    result = PDict parameters\<rparr>
      in case result_storage S of
           None \<Rightarrow> (W, Inl AttributeError)
         | Some rs \<Rightarrow>
             (case serialize E record of
                Inl e \<Rightarrow> (W, Inl e)
              | Inr content \<Rightarrow> write_path W rs (''parameters/'' @ identifier) content))"

definition read_parameters ::
  "Env \<Rightarrow> World \<Rightarrow> ResultStore \<Rightarrow> UUID \<Rightarrow> World \<times> (exn + pyval)" where
  "read_parameters E W S identifier =
     (case result_storage S of
        None \<Rightarrow> (W, Inl AttributeError)
      | Some rs \<Rightarrow>
          (case read_path W rs (''parameters/'' @ identifier) of
             (W1, Inl e) \<Rightarrow> (W1, Inl e)
           | (W1, Inr content) \<Rightarrow>
               (case deserialize E content of
                  Inl e \<Rightarrow> (W1, Inl e)
                | Inr record \<Rightarrow> (W1, Inr (result record)))))"

section \<open>The persisted result reference\<close>

text \<open>The model fields of \<^verbatim>\<open>PersistedResult\<close>, then its private attributes
  (\<^verbatim>\<open>_cache\<close> is \<open>None\<close> when it holds \<^verbatim>\<open>NotSet\<close>).\<close>

record PersistedResult =
  type :: string
  serializer_type :: string
  storage_key :: string
  storage_block_id :: "UUID option"
  expiration :: "DateTime option"
  serialize_to_none :: bool
  priv_cache :: "pyval option"
  priv_persisted :: bool
  priv_should_cache_object :: bool
  priv_storage_block :: "Block option"
  priv_serializer :: "Serializer option"

text \<open>\<^verbatim>\<open>serialize_model\<close>: \<^verbatim>\<open>None\<close> when \<^verbatim>\<open>serialize_to_none\<close> is set, otherwise what
  the default handler gives, the model fields in the order of their declaration.\<close>

definition serialize_model :: "PersistedResult \<Rightarrow> pyval" where
  "serialize_model self =
     (if serialize_to_none self then PNone
      else PDict [(''type'', PStr (type self)),
                  (''serializer_type'', PStr (serializer_type self)),
                  (''storage_key'', PStr (storage_key self)),
                  (''storage_block_id'', dump_optional (storage_block_id self)),
                  (''expiration'', dump_optional (expiration self)),
                  (''serialize_to_none'', PBool (serialize_to_none self))])"

definition has_cached_object :: "PersistedResult \<Rightarrow> bool" where
  "has_cached_object self = (priv_cache self \<noteq> None)"

definition get_storage_block :: "Env \<Rightarrow> PersistedResult \<Rightarrow> PersistedResult \<times> (exn + Block)" where
  "get_storage_block E self =
     (case priv_storage_block self of
        Some b \<Rightarrow> (self, Inr b)
      | None \<Rightarrow>
          (case storage_block_id self of
             Some bid \<Rightarrow>
               (case read_block_document E bid of
                  Inl e \<Rightarrow> (self, Inl e)
                | Inr b \<Rightarrow> (self\<lparr>priv_storage_block := Some b\<rparr>, Inr b))
           | None \<Rightarrow>
               (self\<lparr>priv_storage_block := Some (default_result_storage E)\<rparr>,
                Inr (default_result_storage E))))"

text \<open>\<^verbatim>\<open>PersistedResult.write\<close>; \<open>obj\<close> is \<open>None\<close> for \<^verbatim>\<open>NotSet\<close>. The reference is
  returned on every outcome with what the call has changed in it.\<close>

definition PersistedResult_write ::
  "Env \<Rightarrow> World \<Rightarrow> PersistedResult \<Rightarrow> pyval option
     \<Rightarrow> (World \<times> PersistedResult) \<times> (exn + unit)" where
  "PersistedResult_write E W self obj =
     (if priv_persisted self \<or> serialize_to_none self then ((W, self), Inr ())
      else if obj = None \<and> \<not> has_cached_object self then ((W, self), Inl ValueError)
      else
        (case (case obj of Some v \<Rightarrow> Some v | None \<Rightarrow> priv_cache self) of
           None \<Rightarrow> ((W, self), Inl ValueError)
         | Some v \<Rightarrow>
        (case get_storage_block E self of
           (self1, Inl e) \<Rightarrow> ((W, self1), Inl e)
         | (self1, Inr storage_block) \<Rightarrow>
        (case (case priv_serializer self1 of
                 Some ser \<Rightarrow> Inr ser
               | None \<Rightarrow> serializer_of_type E (serializer_type self1)) of
           Inl e \<Rightarrow> ((W, self1), Inl e)
         | Inr ser \<Rightarrow>
        (case ResultStore_write E W (new_ResultStore E (Some storage_block) ser)
                (Some (storage_key self1)) v (expiration self1) None of
           ((W1, result_store), Inl e) \<Rightarrow> ((W1, self1), Inl e)
         | ((W1, result_store), Inr u) \<Rightarrow>
             ((W1, self1\<lparr>priv_persisted := True,
                         priv_cache := (if priv_should_cache_object self1
                                        then priv_cache self1 else None)\<rparr>),
              Inr ()))))))"

text \<open>\<^verbatim>\<open>_infer_path\<close>: the resolved path when the block can resolve one.\<close>

definition infer_path :: "Block \<Rightarrow> string \<Rightarrow> string option" where
  "infer_path storage_block key =
     (case resolve_path storage_block of None \<Rightarrow> None | Some f \<Rightarrow> Some (f key))"

definition PersistedResult_create ::
  "World \<Rightarrow> pyval \<Rightarrow> Block \<Rightarrow> (World \<Rightarrow> World \<times> (exn + pyval)) \<Rightarrow> Serializer
     \<Rightarrow> UUID option \<Rightarrow> bool \<Rightarrow> DateTime option \<Rightarrow> bool
     \<Rightarrow> World \<times> (exn + PersistedResult)" where
  "PersistedResult_create W obj storage_block key_fn ser block_id cache_object
       expiration' to_none =
     (case key_fn W of
        (W1, Inl e) \<Rightarrow> (W1, Inl e)
      | (W1, Inr (PStr key)) \<Rightarrow>
          (let uri = infer_path storage_block key;
               key' = (case uri of
                         Some u \<Rightarrow> if block_id = None then u else key
                       | None \<Rightarrow> key)
           in (W1, Inr \<lparr>type = ''reference'', serializer_type = stype ser,
                        storage_key = key', storage_block_id = block_id,
                        expiration = expiration', serialize_to_none = to_none,
                        priv_cache = Some obj, priv_persisted = False,
                        priv_should_cache_object = cache_object,
                        priv_storage_block = Some storage_block,
                        priv_serializer = Some ser\<rparr>))
      | (W1, Inr other) \<Rightarrow> (W1, Inl TypeError))"

text \<open>\<^verbatim>\<open>ResultStore.create_result\<close>: \<^verbatim>\<open>if key:\<close> takes a key function that returns the
  key, and the store's own key function otherwise.\<close>

definition create_result ::
  "Env \<Rightarrow> World \<Rightarrow> ResultStore \<Rightarrow> pyval \<Rightarrow> string option \<Rightarrow> DateTime option
     \<Rightarrow> (World \<times> ResultStore) \<times> (exn + PersistedResult)" where
  "create_result E W S obj key expiration' =
     (let should_cache_object = (cache_result_in_memory S \<or> obj = PNone);
          key_fn = (case key of
                      None \<Rightarrow> mint_key S
                    | Some k \<Rightarrow> if k = [] then mint_key S else (\<lambda>W'. (W', Inr (PStr k))));
          rs = (case result_storage S of
                  None \<Rightarrow> default_result_storage E | Some b \<Rightarrow> b);
          S1 = S\<lparr>result_storage := Some rs\<rparr>
      in case PersistedResult_create W obj rs key_fn (ResultStore.serializer S1)
                (result_storage_block_id S1) should_cache_object expiration'
                (\<not> persist_result S1) of
           (W1, r) \<Rightarrow> ((W1, S1), r))"

section \<open>A test environment\<close>

text \<open>An in-memory environment for running the definitions on concrete inputs: a JSON
  renderer (without string escapes), a decoder that recognises the renderings of a given
  list of documents, and one serializer, \<^verbatim>\<open>json\<close>, built on the two.\<close>

fun digits_of :: "nat \<Rightarrow> string" where
  "digits_of n =
     (if n < 10 then [''0123456789'' ! n]
      else digits_of (n div 10) @ [''0123456789'' ! (n mod 10)])"

declare digits_of.simps [simp del]

fun render_json :: "pyval \<Rightarrow> string"
  and render_items :: "pyval list \<Rightarrow> string"
  and render_members :: "(string \<times> pyval) list \<Rightarrow> string" where
  "render_json PNone = ''null''"
| "render_json (PBool b) = (if b then ''true'' else ''false'')"
| "render_json (PInt i) = (if i < 0 then ''-'' @ digits_of (nat (- i)) else digits_of (nat i))"
| "render_json (PStr s) = [CHR 0x22] @ s @ [CHR 0x22]"
| "render_json (PBytes b) = [CHR 0x22] @ b @ [CHR 0x22]"
| "render_json (PList xs) = ''['' @ render_items xs @ '']''"
| "render_json (PDict kvs) = ''{'' @ render_members kvs @ ''}''"
| "render_items [] = []"
| "render_items [x] = render_json x"
| "render_items (x # y # ys) = render_json x @ '','' @ render_items (y # ys)"
| "render_members [] = []"
| "render_members [(k, v)] = [CHR 0x22] @ k @ [CHR 0x22] @ '':'' @ render_json v"
| "render_members ((k, v) # kv # kvs) =
     [CHR 0x22] @ k @ [CHR 0x22] @ '':'' @ render_json v @ '','' @ render_members (kv # kvs)"

definition decode_among :: "pyval list \<Rightarrow> bytes \<Rightarrow> pyval option" where
  "decode_among docs data = find (\<lambda>d. render_json d = data) docs"

definition json_serializer :: Serializer where
  "json_serializer = \<lparr>stype = ''json'', skwargs = []\<rparr>"

definition test_block :: "nat \<Rightarrow> Block" where
  "test_block n = \<lparr>block_document_id = None, resolve_path = None, backing = n\<rparr>"

definition test_env :: "pyval list \<Rightarrow> Env" where
  "test_env docs =
     \<lparr>json_dumps = render_json,
      json_loads = decode_among docs,
      dumps = (\<lambda>ser v. if stype ser = ''json'' then Inr (render_json v) else Inl TypeError),
      loads = (\<lambda>ser data. if stype ser = ''json''
                 then (case decode_among docs data of
                         None \<Rightarrow> Inl ValueError | Some v \<Rightarrow> Inr v)
                 else Inl TypeError),
      validate_serializer =
        (\<lambda>v. case v of
                PDict [(k, PStr t)] \<Rightarrow>
                  if k = ''type'' then Some \<lparr>stype = t, skwargs = []\<rparr> else None
              | _ \<Rightarrow> None),
      serializer_of_type = (\<lambda>t. Inr \<lparr>stype = t, skwargs = []\<rparr>),
      PickleSerializer = \<lparr>stype = ''pickle'', skwargs = []\<rparr>,
      validate_datetime = (\<lambda>v. case v of PStr t \<Rightarrow> Some t | _ \<Rightarrow> None),
      validate_uuid = (\<lambda>v. case v of PStr t \<Rightarrow> Some t | _ \<Rightarrow> None),
      prefect_version_now = ''3.0.0'',
      default_holder = ''host:1:1:MainThread'',
      default_result_storage = test_block 0,
      default_persist_setting = False,
      default_result_serializer = \<lparr>stype = ''pickle'', skwargs = []\<rparr>,
      read_block_document = (\<lambda>u. Inl ValueError),
      uuid4_hex = (\<lambda>n. ''0f'' @ digits_of n)\<rparr>"

definition empty_world :: World where
  "empty_world =
     \<lparr>files = (\<lambda>b k. None), faults = (\<lambda>b k. None), io_log = [],
      locks = (\<lambda>lm k. None), key_calls = 0\<rparr>"

definition test_store :: ResultStore where
  "test_store =
     \<lparr>result_storage = Some (test_block 0), metadata_storage = None, lock_manager = None,
      persist_result = True, cache_result_in_memory = True, serializer = json_serializer,
      storage_key_fn = (\<lambda>n. Inr (PStr (''minted-'' @ digits_of n)))\<rparr>"

section \<open>Notions used to state the properties\<close>

text \<open>The top-level fields of the legacy flat layout that belong to the metadata, and
  the metadata object an input dictionary already carries (empty when it has none).\<close>

definition legacy_fields :: "string list" where
  "legacy_fields = [''expiration'', ''serializer'', ''prefect_version'']"

definition nested_metadata :: "(string \<times> pyval) list \<Rightarrow> (string \<times> pyval) list" where
  "nested_metadata d = (case map_of d ''metadata'' of Some (PDict m) \<Rightarrow> m | _ \<Rightarrow> [])"

text \<open>A backend read of a path returns: the path holds something and raises no fault.\<close>

definition readable :: "World \<Rightarrow> Block \<Rightarrow> string \<Rightarrow> bool" where
  "readable W b key = (faults W (backing b) key = None \<and> files W (backing b) key \<noteq> None)"

text \<open>What the round trip needs of the model machinery: validation gives back the
  metadata that was dumped, and the JSON text of a document parses back to it.\<close>

definition metadata_round_trips :: "Env \<Rightarrow> ResultRecordMetadata \<Rightarrow> bool" where
  "metadata_round_trips E md = (validate_metadata E (dump_metadata md) = Inr md)"

definition codec_round_trips :: "Env \<Rightarrow> pyval \<Rightarrow> bool" where
  "codec_round_trips E doc = (json_loads E (json_dumps E doc) = Some doc)"

text \<open>The record that \<^verbatim>\<open>create_result_record\<close> builds on a store for a key, a value
  and an expiration, and the result storage a store uses once the default is resolved.\<close>

definition record_for ::
  "Env \<Rightarrow> ResultStore \<Rightarrow> string \<Rightarrow> pyval \<Rightarrow> DateTime option \<Rightarrow> ResultRecord" where
  "record_for E S k obj ex =
     \<lparr>metadata = \<lparr>ResultRecordMetadata.storage_key = Some k,
                  ResultRecordMetadata.expiration = ex,
                  ResultRecordMetadata.serializer = ResultStore.serializer S,
                  prefect_version = prefect_version_now E,
                  ResultRecordMetadata.storage_block_id = result_storage_block_id S\<rparr>,
      result = obj\<rparr>"

definition storage_in_use :: "Env \<Rightarrow> ResultStore \<Rightarrow> Block" where
  "storage_in_use E S =
     (case result_storage S of None \<Rightarrow> default_result_storage E | Some b \<Rightarrow> b)"

section \<open>Sample data\<close>

definition sample_value :: pyval where
  "sample_value = PDict [(''a'', PInt 1)]"

definition sample_metadata :: "string \<Rightarrow> ResultRecordMetadata" where
  "sample_metadata key =
     \<lparr>ResultRecordMetadata.storage_key = Some key, ResultRecordMetadata.expiration = None,
      ResultRecordMetadata.serializer = json_serializer, prefect_version = ''3.0.0'',
      ResultRecordMetadata.storage_block_id = None\<rparr>"

definition sample_record :: "string \<Rightarrow> ResultRecord" where
  "sample_record key = \<lparr>metadata = sample_metadata key, result = sample_value\<rparr>"

text \<open>The document of the combined blob of \<open>sample_record key\<close>.\<close>

definition sample_document :: "string \<Rightarrow> pyval" where
  "sample_document key =
     PDict [(''metadata'', dump_metadata (sample_metadata key)),
            (''result'', PStr (render_json sample_value))]"

definition sample_env :: Env where
  "sample_env =
     test_env [sample_document ''k'', dump_metadata (sample_metadata ''elsewhere''), sample_value]"

text \<open>A store with separate metadata storage, and a world where the metadata stored
  under \<open>k\<close> records the storage key \<open>elsewhere\<close>, under which the payload lies.\<close>

definition split_store :: ResultStore where
  "split_store = test_store\<lparr>metadata_storage := Some (test_block 1)\<rparr>"

definition split_world :: World where
  "split_world =
     empty_world\<lparr>files := (\<lambda>b key.
        if b = 1 \<and> key = ''k''
          then Some (render_json (dump_metadata (sample_metadata ''elsewhere'')))
        else if b = 0 \<and> key = ''elsewhere'' then Some (render_json sample_value)
        else None)\<rparr>"

text \<open>A world where the key \<open>k\<close> holds bytes that are no record.\<close>

definition corrupt_world :: World where
  "corrupt_world =
     empty_world\<lparr>files := (\<lambda>b key. if b = 0 \<and> key = ''k'' then Some ''not json'' else None)\<rparr>"

text \<open>A store with a lock manager, and the world after holder \<open>h1\<close> has acquired the
  lock of \<open>k\<close>.\<close>

definition locking_store :: ResultStore where
  "locking_store = test_store\<lparr>lock_manager := Some 0\<rparr>"

definition locked_world :: World where
  "locked_world =
     (case lm_acquire_lock empty_world 0 ''k'' ''h1'' None of
        Some (W, ok) \<Rightarrow> W
      | None \<Rightarrow> empty_world)"

text \<open>Two references with the object still cached: one with persistence disabled, one
  to be written.\<close>

definition disabled_reference :: PersistedResult where
  "disabled_reference =
     \<lparr>type = ''reference'', serializer_type = ''json'', storage_key = ''k'',
      storage_block_id = None, expiration = None, serialize_to_none = True,
      priv_cache = Some sample_value, priv_persisted = False,
      priv_should_cache_object = True, priv_storage_block = Some (test_block 0),
      priv_serializer = Some json_serializer\<rparr>"

definition pending_reference :: PersistedResult where
  "pending_reference = disabled_reference\<lparr>serialize_to_none := False\<rparr>"

text \<open>A record in the legacy flat layout, and an environment that can parse its JSON
  text.\<close>

definition legacy_dict :: "(string \<times> pyval) list" where
  "legacy_dict =
     [(''data'', PStr (render_json sample_value)), (''expiration'', PNone),
      (''serializer'', PDict [(''type'', PStr ''json'')]),
      (''prefect_version'', PStr ''2.14.0'')]"

definition legacy_env :: Env where
  "legacy_env = test_env [PDict legacy_dict, sample_value]"

section \<open>Isolation levels\<close>

text \<open>
  Claim C4. \<^verbatim>\<open>supports_isolation_level\<close> returns true for READ\_COMMITTED on every
  store, returns for SERIALIZABLE whether a lock manager is configured, and raises
  \<^verbatim>\<open>ValueError\<close> for anything else. A level is given as the member of the enumeration
  or as the plain string that compares equal to it; every other value, of whatever
  type, is refused.
\<close>

theorem supports_isolation_level_cases:
  "supports_isolation_level S (Member READ_COMMITTED) = Inr True
   \<and> supports_isolation_level S (Member SERIALIZABLE) = Inr (lock_manager S \<noteq> None)
   \<and> supports_isolation_level S (Value (PStr ''READ_COMMITTED'')) = Inr True
   \<and> supports_isolation_level S (Value (PStr ''SERIALIZABLE''))
       = Inr (lock_manager S \<noteq> None)
   \<and> (x \<noteq> PStr ''READ_COMMITTED'' \<and> x \<noteq> PStr ''SERIALIZABLE''
        \<longrightarrow> supports_isolation_level S (Value x) = Inl ValueError)"
  by (simp add: supports_isolation_level_def level_eq_def level_name_def)

text \<open>Witness for C4: the store without a lock manager supports READ\_COMMITTED and
  not SERIALIZABLE, the store with one supports SERIALIZABLE, and the string
  \<open>REPEATABLE_READ\<close> and the number 1 are refused.\<close>

theorem supports_isolation_level_cases_witness:
  "PStr ''REPEATABLE_READ'' \<noteq> PStr ''READ_COMMITTED''
   \<and> PStr ''REPEATABLE_READ'' \<noteq> PStr ''SERIALIZABLE''
   \<and> supports_isolation_level test_store (Value (PStr ''REPEATABLE_READ'')) = Inl ValueError
   \<and> supports_isolation_level test_store (Value (PInt 1)) = Inl ValueError
   \<and> supports_isolation_level test_store (Member READ_COMMITTED) = Inr True
   \<and> supports_isolation_level test_store (Member SERIALIZABLE) = Inr False
   \<and> supports_isolation_level locking_store (Member SERIALIZABLE) = Inr True
   \<and> supports_isolation_level locking_store (Value (PStr ''SERIALIZABLE'')) = Inr True"
  using supports_isolation_level_cases[of test_store "PStr ''REPEATABLE_READ''"]
    supports_isolation_level_cases[of test_store "PInt 1"]
    supports_isolation_level_cases[of locking_store "PInt 1"]
  by (simp add: test_store_def locking_store_def)

section \<open>Facts about the sample data\<close>

lemma render_sample_value:
  "render_json sample_value = ''{'' @ [CHR 0x22] @ ''a'' @ [CHR 0x22] @ '':1}''"
  by (simp add: sample_value_def digits_of.simps)

lemma render_sample_metadata:
  "render_json (dump_metadata (sample_metadata key))
     = ''{'' @ [CHR 0x22] @ ''storage_key'' @ [CHR 0x22] @ '':'' @ [CHR 0x22] @ key @ [CHR 0x22]
       @ '','' @ [CHR 0x22] @ ''expiration'' @ [CHR 0x22] @ '':null,''
       @ [CHR 0x22] @ ''serializer'' @ [CHR 0x22] @ '':{'' @ [CHR 0x22] @ ''type'' @ [CHR 0x22]
       @ '':'' @ [CHR 0x22] @ ''json'' @ [CHR 0x22] @ ''},''
       @ [CHR 0x22] @ ''prefect_version'' @ [CHR 0x22] @ '':'' @ [CHR 0x22] @ ''3.0.0''
       @ [CHR 0x22] @ '','' @ [CHR 0x22] @ ''storage_block_id'' @ [CHR 0x22] @ '':null}''"
  by (simp add: sample_metadata_def dump_metadata_def dump_optional_def dump_serializer_def
      json_serializer_def)

lemma sample_dumps:
  "dumps sample_env json_serializer sample_value = Inr (render_json sample_value)"
  by (simp add: sample_env_def test_env_def json_serializer_def)

lemma sample_loads:
  "loads sample_env json_serializer (render_json sample_value) = Inr sample_value"
  by (simp add: sample_env_def test_env_def json_serializer_def decode_among_def
      sample_document_def render_sample_metadata render_sample_value)

lemma sample_utf8: "utf8_valid (render_json sample_value)"
  by (simp add: render_sample_value)

lemma sample_metadata_round_trips: "metadata_round_trips sample_env (sample_metadata key)"
  by (simp add: metadata_round_trips_def sample_env_def test_env_def sample_metadata_def
      validate_metadata_def dump_metadata_def dump_optional_def dump_serializer_def
      json_serializer_def validate_optional_def validate_default_def validate_str_def)

lemma sample_codec: "codec_round_trips sample_env (sample_document ''k'')"
  by (simp add: codec_round_trips_def sample_env_def test_env_def decode_among_def)

lemma sample_load_bytes:
  "load_bytes sample_env (render_json (dump_metadata (sample_metadata ''elsewhere'')))
     = Inr (sample_metadata ''elsewhere'')"
proof -
  have "json_loads sample_env (render_json (dump_metadata (sample_metadata ''elsewhere'')))
          = Some (dump_metadata (sample_metadata ''elsewhere''))"
    by (simp add: sample_env_def test_env_def decode_among_def sample_document_def
        render_sample_metadata)
  then show ?thesis
    using sample_metadata_round_trips[of "''elsewhere''"]
    by (simp add: load_bytes_def metadata_round_trips_def)
qed

lemma sample_serialize:
  "serialize sample_env (sample_record key) = Inr (render_json (sample_document key))"
proof -
  have "json_dumps sample_env = render_json"
    by (simp add: sample_env_def test_env_def)
  moreover have "ResultRecordMetadata.serializer (sample_metadata key) = json_serializer"
    by (simp add: sample_metadata_def)
  ultimately show ?thesis
    by (simp add: serialize_def serialize_result_def sample_record_def sample_dumps
        sample_utf8 sample_document_def)
qed

section \<open>The legacy-format adapter\<close>

lemma move_into_metadata_absent:
  "map_of d k = None \<Longrightarrow> move_into_metadata k d = Inr d"
  by (simp add: move_into_metadata_def)

lemma move_into_metadata_dict:
  "map_of d k = Some x \<Longrightarrow> k \<noteq> ''metadata'' \<Longrightarrow> map_of d ''metadata'' = Some (PDict m)
   \<Longrightarrow> move_into_metadata k d
       = Inr (AList.update ''metadata'' (PDict (AList.update k x m)) (AList.delete k d))"
  by (simp add: move_into_metadata_def delete_conv')

lemma move_into_metadata_map:
  assumes "map_of d ''metadata'' = Some (PDict m)" "k \<noteq> ''metadata''"
  shows "\<exists>d' m'. move_into_metadata k d = Inr d'
     \<and> map_of d' ''metadata'' = Some (PDict m')
     \<and> map_of d' k = None
     \<and> map_of m' k = (case map_of d k of None \<Rightarrow> map_of m k | Some x \<Rightarrow> Some x)
     \<and> (\<forall>j. j \<noteq> k \<longrightarrow> map_of m' j = map_of m j)
     \<and> (\<forall>j. j \<noteq> k \<longrightarrow> j \<noteq> ''metadata'' \<longrightarrow> map_of d' j = map_of d j)
     \<and> (map_of d k = None \<longrightarrow> d' = d)"
proof (cases "map_of d k")
  case None
  then show ?thesis using assms by (simp add: move_into_metadata_absent)
next
  case (Some x)
  then show ?thesis using assms
    by (simp add: move_into_metadata_dict update_conv' delete_conv')
qed

lemma coerce_old_format_nested:
  assumes "map_of d ''data'' = None" "map_of d ''metadata'' \<noteq> None"
    "map_of d ''expiration'' = None" "map_of d ''serializer'' = None"
    "map_of d ''prefect_version'' = None"
  shows "coerce_old_format (PDict d) = Inr (PDict d)"
  using assms by (auto simp: coerce_old_format_def move_into_metadata_absent)

lemma coerce_old_format_chain:
  assumes "map_of d ''metadata'' = None \<or> (\<exists>m. map_of d ''metadata'' = Some (PDict m))"
  shows "\<exists>d' m'. coerce_old_format (PDict d) = Inr (PDict d')
     \<and> map_of d' ''data'' = None
     \<and> map_of d' ''result'' = (case map_of d ''data'' of None \<Rightarrow> map_of d ''result'' | Some x \<Rightarrow> Some x)
     \<and> map_of d' ''metadata'' = Some (PDict m')
     \<and> (\<forall>k \<in> set legacy_fields. map_of d' k = None
           \<and> map_of m' k = (case map_of d k of None \<Rightarrow> map_of (nested_metadata d) k | Some x \<Rightarrow> Some x))
     \<and> (\<forall>k. k \<notin> set legacy_fields \<longrightarrow> map_of m' k = map_of (nested_metadata d) k)
     \<and> (\<forall>k. k \<notin> set ([''data'', ''result'', ''metadata''] @ legacy_fields) \<longrightarrow> map_of d' k = map_of d k)
     \<and> (map_of d ''data'' = None \<and> map_of d ''metadata'' \<noteq> None
          \<and> (\<forall>k \<in> set legacy_fields. map_of d k = None) \<longrightarrow> d' = d)"
proof -
  define d1 where "d1 = (case map_of d ''data'' of None \<Rightarrow> d
                         | Some x \<Rightarrow> AList.update ''result'' x (AList.delete ''data'' d))"
  define d2 where "d2 = (if map_of d1 ''metadata'' = None
                         then AList.update ''metadata'' (PDict []) d1 else d1)"
  have d1_map: "map_of d1 = (case map_of d ''data'' of None \<Rightarrow> map_of d
                  | Some x \<Rightarrow> ((map_of d)(''data'' := None))(''result'' \<mapsto> x))"
    by (simp add: d1_def update_conv' delete_conv' split: option.split)
  have d1_same: "map_of d ''data'' = None \<Longrightarrow> d1 = d"
    by (simp add: d1_def)
  have d1_md: "map_of d1 ''metadata'' = map_of d ''metadata''"
    by (simp add: d1_map split: option.split)
  have d2_md: "map_of d2 ''metadata'' = Some (PDict (nested_metadata d))"
    using assms d1_md by (auto simp: d2_def nested_metadata_def update_conv')
  have d2_other: "k \<noteq> ''metadata'' \<Longrightarrow> map_of d2 k = map_of d1 k" for k
    by (simp add: d2_def update_conv')
  have d2_same: "map_of d ''metadata'' \<noteq> None \<Longrightarrow> d2 = d1"
    using d1_md by (auto simp: d2_def)
  from move_into_metadata_map[OF d2_md, of "''expiration''"]
  obtain d3 m3 where s3: "move_into_metadata ''expiration'' d2 = Inr d3"
    and md3: "map_of d3 ''metadata'' = Some (PDict m3)"
    and k3: "map_of d3 ''expiration'' = None"
    and v3: "map_of m3 ''expiration'' = (case map_of d2 ''expiration'' of
               None \<Rightarrow> map_of (nested_metadata d) ''expiration'' | Some x \<Rightarrow> Some x)"
    and o3: "\<forall>j. j \<noteq> ''expiration'' \<longrightarrow> map_of m3 j = map_of (nested_metadata d) j"
    and t3: "\<forall>j. j \<noteq> ''expiration'' \<longrightarrow> j \<noteq> ''metadata'' \<longrightarrow> map_of d3 j = map_of d2 j"
    and e3: "map_of d2 ''expiration'' = None \<longrightarrow> d3 = d2"
    by auto
  from move_into_metadata_map[OF md3, of "''serializer''"]
  obtain d4 m4 where s4: "move_into_metadata ''serializer'' d3 = Inr d4"
    and md4: "map_of d4 ''metadata'' = Some (PDict m4)"
    and k4: "map_of d4 ''serializer'' = None"
    and v4: "map_of m4 ''serializer'' = (case map_of d3 ''serializer'' of
               None \<Rightarrow> map_of m3 ''serializer'' | Some x \<Rightarrow> Some x)"
    and o4: "\<forall>j. j \<noteq> ''serializer'' \<longrightarrow> map_of m4 j = map_of m3 j"
    and t4: "\<forall>j. j \<noteq> ''serializer'' \<longrightarrow> j \<noteq> ''metadata'' \<longrightarrow> map_of d4 j = map_of d3 j"
    and e4: "map_of d3 ''serializer'' = None \<longrightarrow> d4 = d3"
    by auto
  from move_into_metadata_map[OF md4, of "''prefect_version''"]
  obtain d5 m5 where s5: "move_into_metadata ''prefect_version'' d4 = Inr d5"
    and md5: "map_of d5 ''metadata'' = Some (PDict m5)"
    and k5: "map_of d5 ''prefect_version'' = None"
    and v5: "map_of m5 ''prefect_version'' = (case map_of d4 ''prefect_version'' of
               None \<Rightarrow> map_of m4 ''prefect_version'' | Some x \<Rightarrow> Some x)"
    and o5: "\<forall>j. j \<noteq> ''prefect_version'' \<longrightarrow> map_of m5 j = map_of m4 j"
    and t5: "\<forall>j. j \<noteq> ''prefect_version'' \<longrightarrow> j \<noteq> ''metadata'' \<longrightarrow> map_of d5 j = map_of d4 j"
    and e5: "map_of d4 ''prefect_version'' = None \<longrightarrow> d5 = d4"
    by auto
  have co: "coerce_old_format (PDict d) = Inr (PDict d5)"
    using s3 s4 s5
    by (simp add: coerce_old_format_def d1_def[symmetric] d2_def[symmetric] del: map_of_eq_None_iff)
  have c1: "map_of d5 ''data'' = None"
    using t5 t4 t3 d2_other[of "''data''"] by (simp add: d1_map split: option.split)
  have c2: "map_of d5 ''result'' = (case map_of d ''data'' of None \<Rightarrow> map_of d ''result'' | Some x \<Rightarrow> Some x)"
    using t5 t4 t3 d2_other[of "''result''"] by (simp add: d1_map split: option.split)
  have l1: "map_of d2 k = map_of d k" if "k \<in> set legacy_fields" for k
    using that d2_other[of k] by (auto simp: legacy_fields_def d1_map split: option.split)
  have c4e: "map_of d5 ''expiration'' = None
      \<and> map_of m5 ''expiration'' = (case map_of d ''expiration'' of
            None \<Rightarrow> map_of (nested_metadata d) ''expiration'' | Some x \<Rightarrow> Some x)"
    using l1[of "''expiration''"] k3 v3 t4 t5 o4 o5 by (simp add: legacy_fields_def split: option.split)
  have c4s: "map_of d5 ''serializer'' = None
      \<and> map_of m5 ''serializer'' = (case map_of d ''serializer'' of
            None \<Rightarrow> map_of (nested_metadata d) ''serializer'' | Some x \<Rightarrow> Some x)"
    using l1[of "''serializer''"] k4 v4 t3 t5 o3 o5 by (simp add: legacy_fields_def split: option.split)
  have c4p: "map_of d5 ''prefect_version'' = None
      \<and> map_of m5 ''prefect_version'' = (case map_of d ''prefect_version'' of
            None \<Rightarrow> map_of (nested_metadata d) ''prefect_version'' | Some x \<Rightarrow> Some x)"
    using l1[of "''prefect_version''"] k5 v5 t3 t4 o3 o4 by (simp add: legacy_fields_def split: option.split)
  have c4: "\<forall>k \<in> set legacy_fields. map_of d5 k = None
           \<and> map_of m5 k = (case map_of d k of None \<Rightarrow> map_of (nested_metadata d) k | Some x \<Rightarrow> Some x)"
    using c4e c4s c4p by (simp add: legacy_fields_def)
  have c5: "map_of m5 k = map_of (nested_metadata d) k" if "k \<notin> set legacy_fields" for k
    using that o3 o4 o5 by (simp add: legacy_fields_def)
  have c6: "map_of d5 k = map_of d k"
    if "k \<notin> set ([''data'', ''result'', ''metadata''] @ legacy_fields)" for k
    using that t3 t4 t5 d2_other[of k] by (simp add: legacy_fields_def d1_map split: option.split)
  have c7: "d5 = d" if "map_of d ''data'' = None" "map_of d ''metadata'' \<noteq> None"
      "\<forall>k \<in> set legacy_fields. map_of d k = None"
  proof -
    have "d2 = d" using that d1_same d2_same by simp
    moreover have "d3 = d2" using e3 that \<open>d2 = d\<close> by (simp add: legacy_fields_def)
    moreover have "d4 = d3" using e4 that \<open>d2 = d\<close> \<open>d3 = d2\<close> by (simp add: legacy_fields_def)
    moreover have "d5 = d4" using e5 that \<open>d2 = d\<close> \<open>d3 = d2\<close> \<open>d4 = d3\<close>
      by (simp add: legacy_fields_def)
    ultimately show ?thesis by simp
  qed
  show ?thesis
  proof (rule exI[of _ d5], rule exI[of _ m5], intro conjI)
    show "coerce_old_format (PDict d) = Inr (PDict d5)" by (rule co)
    show "map_of d5 ''data'' = None" by (rule c1)
    show "map_of d5 ''result'' = (case map_of d ''data'' of None \<Rightarrow> map_of d ''result'' | Some x \<Rightarrow> Some x)"
      by (rule c2)
    show "map_of d5 ''metadata'' = Some (PDict m5)" by (rule md5)
    show "\<forall>k \<in> set legacy_fields. map_of d5 k = None
           \<and> map_of m5 k = (case map_of d k of None \<Rightarrow> map_of (nested_metadata d) k | Some x \<Rightarrow> Some x)"
      by (rule c4)
    show "\<forall>k. k \<notin> set legacy_fields \<longrightarrow> map_of m5 k = map_of (nested_metadata d) k"
      using c5 by simp
    show "\<forall>k. k \<notin> set ([''data'', ''result'', ''metadata''] @ legacy_fields) \<longrightarrow> map_of d5 k = map_of d k"
      using c6 by simp
    show "map_of d ''data'' = None \<and> map_of d ''metadata'' \<noteq> None
          \<and> (\<forall>k \<in> set legacy_fields. map_of d k = None) \<longrightarrow> d5 = d"
      using c7 by simp
  qed
qed

lemma coerce_old_format_no_legacy:
  assumes "\<forall>k \<in> set legacy_fields. map_of d k = None"
    and "map_of d ''metadata'' = Some v"
  shows "coerce_old_format (PDict d)
           = Inr (PDict (case map_of d ''data'' of
                           None \<Rightarrow> d
                         | Some x \<Rightarrow> AList.update ''result'' x (AList.delete ''data'' d)))"
proof -
  define d1 where "d1 = (case map_of d ''data'' of None \<Rightarrow> d
                         | Some x \<Rightarrow> AList.update ''result'' x (AList.delete ''data'' d))"
  have d1_map: "map_of d1 = (case map_of d ''data'' of None \<Rightarrow> map_of d
                  | Some x \<Rightarrow> ((map_of d)(''data'' := None))(''result'' \<mapsto> x))"
    by (simp add: d1_def update_conv' delete_conv' split: option.split)
  have md: "map_of d1 ''metadata'' = Some v"
    using assms(2) by (simp add: d1_map split: option.split)
  have l: "map_of d1 ''expiration'' = None" "map_of d1 ''serializer'' = None"
    "map_of d1 ''prefect_version'' = None"
    using assms(1) by (simp_all add: d1_map legacy_fields_def split: option.split)
  show ?thesis
    unfolding d1_def[symmetric]
    by (simp add: coerce_old_format_def d1_def[symmetric] md l move_into_metadata_absent)
qed

text \<open>What validation makes of the metadata object of a migrated flat record: the
  legacy fields, and defaults for the rest.\<close>

lemma validate_migrated_metadata:
  assumes "map_of m ''storage_key'' = None" "map_of m ''storage_block_id'' = None"
    and "validate_optional (validate_datetime E) (map_of m ''expiration'') = Inr ex"
    and "validate_default (validate_serializer E) (PickleSerializer E) (map_of m ''serializer'')
           = Inr ser"
    and "validate_default validate_str (prefect_version_now E) (map_of m ''prefect_version'')
           = Inr pv"
  shows "validate_metadata E (PDict m)
           = Inr \<lparr>ResultRecordMetadata.storage_key = None,
                  ResultRecordMetadata.expiration = ex,
                  ResultRecordMetadata.serializer = ser, prefect_version = pv,
                  ResultRecordMetadata.storage_block_id = None\<rparr>"
  using assms by (simp add: validate_metadata_def validate_optional_def)

lemma deserialize_legacy_flat:
  assumes jl: "json_loads E blob = Some (PDict d)"
    and flat: "map_of d ''metadata'' = None"
    and data: "map_of d ''data'' = Some (PStr s)"
    and ex: "validate_optional (validate_datetime E) (map_of d ''expiration'') = Inr ex"
    and ser: "validate_default (validate_serializer E) (PickleSerializer E)
                (map_of d ''serializer'') = Inr ser"
    and pv: "validate_default validate_str (prefect_version_now E)
               (map_of d ''prefect_version'') = Inr pv"
    and ld: "loads E ser s = Inr v"
  shows "deserialize E blob
           = Inr \<lparr>metadata = \<lparr>ResultRecordMetadata.storage_key = None,
                     ResultRecordMetadata.expiration = ex,
                     ResultRecordMetadata.serializer = ser, prefect_version = pv,
                     ResultRecordMetadata.storage_block_id = None\<rparr>,
                  result = v\<rparr>"
proof -
  have h: "map_of d ''metadata'' = None \<or> (\<exists>m. map_of d ''metadata'' = Some (PDict m))"
    using flat by simp
  from coerce_old_format_chain[OF h] obtain d' m' where
    co: "coerce_old_format (PDict d) = Inr (PDict d')"
    and res: "map_of d' ''result''
         = (case map_of d ''data'' of None \<Rightarrow> map_of d ''result'' | Some x \<Rightarrow> Some x)"
    and md: "map_of d' ''metadata'' = Some (PDict m')"
    and leg: "\<forall>k \<in> set legacy_fields. map_of d' k = None
           \<and> map_of m' k = (case map_of d k of
                               None \<Rightarrow> map_of (nested_metadata d) k | Some x \<Rightarrow> Some x)"
    and oth: "\<forall>k. k \<notin> set legacy_fields \<longrightarrow> map_of m' k = map_of (nested_metadata d) k"
    by blast
  have nm: "nested_metadata d = []"
    using flat by (simp add: nested_metadata_def)
  have m1: "map_of m' ''storage_key'' = None" "map_of m' ''storage_block_id'' = None"
    using oth by (simp_all add: nm legacy_fields_def)
  have m2: "map_of m' ''expiration'' = map_of d ''expiration''"
    "map_of m' ''serializer'' = map_of d ''serializer''"
    "map_of m' ''prefect_version'' = map_of d ''prefect_version''"
    using leg by (simp_all add: nm legacy_fields_def split: option.split)
  have vm: "validate_metadata E (PDict m')
           = Inr \<lparr>ResultRecordMetadata.storage_key = None,
                  ResultRecordMetadata.expiration = ex,
                  ResultRecordMetadata.serializer = ser, prefect_version = pv,
                  ResultRecordMetadata.storage_block_id = None\<rparr>"
    by (rule validate_migrated_metadata) (simp_all add: m1 m2 ex ser pv)
  have r: "map_of d' ''result'' = Some (PStr s)"
    using res data by simp
  show ?thesis
    by (simp add: deserialize_def model_validate_json_def jl validate_record_def co md vm r ld)
qed

text \<open>
  Claim C8, as amended. \<^verbatim>\<open>ResultRecord.deserialize\<close> accepts the legacy flat layout:
  the adapter runs on the parsed dictionary before validation and, for every input
  dictionary whose \<^verbatim>\<open>metadata\<close> entry is absent or is itself a dictionary, or that has
  none of the legacy fields at its top level, returns a dictionary in which a top-level
  \<^verbatim>\<open>data\<close> field has become \<^verbatim>\<open>result\<close>, the top-level \<^verbatim>\<open>expiration\<close>,
  \<^verbatim>\<open>serializer\<close> and \<^verbatim>\<open>prefect_version\<close> fields have moved into the nested
  \<^verbatim>\<open>metadata\<close> object, and every other field, at the top level and in the metadata, is
  as it was. An input that is already nested is returned unchanged, the adapter
  changes nothing when run on its own output, and validating the input gives what
  validating the migrated dictionary gives. A blob that parses to a flat record, with its
  payload under \<^verbatim>\<open>data\<close> and legacy fields that validate, deserializes to the record
  with those fields as its metadata and the decoded payload as its result.
\<close>

theorem coerce_old_format_migrates:
  assumes "map_of d ''metadata'' = None \<or> (\<exists>m. map_of d ''metadata'' = Some (PDict m))
           \<or> (\<forall>k \<in> set legacy_fields. map_of d k = None)"
  shows "\<exists>d'. coerce_old_format (PDict d) = Inr (PDict d')
     \<and> map_of d' ''data'' = None
     \<and> map_of d' ''result''
         = (case map_of d ''data'' of None \<Rightarrow> map_of d ''result'' | Some x \<Rightarrow> Some x)
     \<and> (\<forall>k \<in> set legacy_fields. map_of d' k = None)
     \<and> (map_of d ''metadata'' = None \<or> (\<exists>m. map_of d ''metadata'' = Some (PDict m)) \<longrightarrow>
          (\<exists>m'. map_of d' ''metadata'' = Some (PDict m')
             \<and> (\<forall>k \<in> set legacy_fields.
                   map_of m' k = (case map_of d k of
                                    None \<Rightarrow> map_of (nested_metadata d) k | Some x \<Rightarrow> Some x))
             \<and> (\<forall>k. k \<notin> set legacy_fields \<longrightarrow> map_of m' k = map_of (nested_metadata d) k)))
     \<and> (map_of d ''metadata'' \<noteq> None \<and> (\<forall>k \<in> set legacy_fields. map_of d k = None) \<longrightarrow>
          map_of d' ''metadata'' = map_of d ''metadata'')
     \<and> (\<forall>k. k \<notin> set ([''data'', ''result'', ''metadata''] @ legacy_fields)
            \<longrightarrow> map_of d' k = map_of d k)
     \<and> (map_of d ''data'' = None \<and> map_of d ''metadata'' \<noteq> None
          \<and> (\<forall>k \<in> set legacy_fields. map_of d k = None) \<longrightarrow> d' = d)
     \<and> coerce_old_format (PDict d') = Inr (PDict d')
     \<and> validate_record E (PDict d) = validate_record E (PDict d')
     \<and> (\<forall>blob s ex ser pv v.
           json_loads E blob = Some (PDict d)
           \<and> map_of d ''metadata'' = None
           \<and> map_of d ''data'' = Some (PStr s)
           \<and> validate_optional (validate_datetime E) (map_of d ''expiration'') = Inr ex
           \<and> validate_default (validate_serializer E) (PickleSerializer E)
                (map_of d ''serializer'') = Inr ser
           \<and> validate_default validate_str (prefect_version_now E)
                (map_of d ''prefect_version'') = Inr pv
           \<and> loads E ser s = Inr v
           \<longrightarrow> deserialize E blob
                = Inr \<lparr>metadata = \<lparr>ResultRecordMetadata.storage_key = None,
                          ResultRecordMetadata.expiration = ex,
                          ResultRecordMetadata.serializer = ser, prefect_version = pv,
                          ResultRecordMetadata.storage_block_id = None\<rparr>,
                       result = v\<rparr>)"
proof -
  have acc: "\<forall>blob s ex ser pv v.
           json_loads E blob = Some (PDict d)
           \<and> map_of d ''metadata'' = None
           \<and> map_of d ''data'' = Some (PStr s)
           \<and> validate_optional (validate_datetime E) (map_of d ''expiration'') = Inr ex
           \<and> validate_default (validate_serializer E) (PickleSerializer E)
                (map_of d ''serializer'') = Inr ser
           \<and> validate_default validate_str (prefect_version_now E)
                (map_of d ''prefect_version'') = Inr pv
           \<and> loads E ser s = Inr v
           \<longrightarrow> deserialize E blob
                = Inr \<lparr>metadata = \<lparr>ResultRecordMetadata.storage_key = None,
                          ResultRecordMetadata.expiration = ex,
                          ResultRecordMetadata.serializer = ser, prefect_version = pv,
                          ResultRecordMetadata.storage_block_id = None\<rparr>,
                       result = v\<rparr>"
    using deserialize_legacy_flat by blast
  show ?thesis
  proof (cases "map_of d ''metadata'' = None \<or> (\<exists>m. map_of d ''metadata'' = Some (PDict m))")
    case True
    from coerce_old_format_chain[OF True] obtain d' m' where
      co: "coerce_old_format (PDict d) = Inr (PDict d')"
      and c1: "map_of d' ''data'' = None"
      and c2: "map_of d' ''result''
           = (case map_of d ''data'' of None \<Rightarrow> map_of d ''result'' | Some x \<Rightarrow> Some x)"
      and c3: "map_of d' ''metadata'' = Some (PDict m')"
      and c4: "\<forall>k \<in> set legacy_fields. map_of d' k = None
             \<and> map_of m' k = (case map_of d k of
                                 None \<Rightarrow> map_of (nested_metadata d) k | Some x \<Rightarrow> Some x)"
      and c5: "\<forall>k. k \<notin> set legacy_fields \<longrightarrow> map_of m' k = map_of (nested_metadata d) k"
      and c6: "\<forall>k. k \<notin> set ([''data'', ''result'', ''metadata''] @ legacy_fields)
              \<longrightarrow> map_of d' k = map_of d k"
      and c7: "map_of d ''data'' = None \<and> map_of d ''metadata'' \<noteq> None
            \<and> (\<forall>k \<in> set legacy_fields. map_of d k = None) \<longrightarrow> d' = d"
      by blast
    have idem: "coerce_old_format (PDict d') = Inr (PDict d')"
      using c1 c3 c4 by (intro coerce_old_format_nested) (simp_all add: legacy_fields_def)
    have later: "validate_record E (PDict d) = validate_record E (PDict d')"
      by (simp add: validate_record_def co idem)
    have c4a: "\<forall>k \<in> set legacy_fields. map_of d' k = None" using c4 by blast
    have c4b: "\<exists>m'. map_of d' ''metadata'' = Some (PDict m')
             \<and> (\<forall>k \<in> set legacy_fields.
                   map_of m' k = (case map_of d k of
                                    None \<Rightarrow> map_of (nested_metadata d) k | Some x \<Rightarrow> Some x))
             \<and> (\<forall>k. k \<notin> set legacy_fields \<longrightarrow> map_of m' k = map_of (nested_metadata d) k)"
      using c3 c4 c5 by blast
    have same_md: "map_of d ''metadata'' \<noteq> None \<and> (\<forall>k \<in> set legacy_fields. map_of d k = None) \<longrightarrow>
          map_of d' ''metadata'' = map_of d ''metadata''"
    proof (intro impI)
      assume a: "map_of d ''metadata'' \<noteq> None \<and> (\<forall>k \<in> set legacy_fields. map_of d k = None)"
      from True a obtain m where m: "map_of d ''metadata'' = Some (PDict m)" by blast
      then have nm: "nested_metadata d = m" by (simp add: nested_metadata_def)
      have "map_of m' k = map_of m k" for k
      proof (cases "k \<in> set legacy_fields")
        case True
        then show ?thesis using c4 a nm by simp
      next
        case False
        then show ?thesis using c5 nm by simp
      qed
      then have mm: "map_of m' = map_of m" by (rule ext)
      have no: "map_of d ''expiration'' = None" "map_of d ''serializer'' = None"
        "map_of d ''prefect_version'' = None"
        using a by (simp_all add: legacy_fields_def)
      have "coerce_old_format (PDict d)
           = Inr (PDict (case map_of d ''data'' of
                           None \<Rightarrow> d
                         | Some x \<Rightarrow> AList.update ''result'' x (AList.delete ''data'' d)))"
        using a m by (intro coerce_old_format_no_legacy) simp_all
      with co have "d' = (case map_of d ''data'' of
                           None \<Rightarrow> d
                         | Some x \<Rightarrow> AList.update ''result'' x (AList.delete ''data'' d))"
        by simp
      then show "map_of d' ''metadata'' = map_of d ''metadata''"
        by (simp add: update_conv' delete_conv' split: option.split)
    qed
    show ?thesis
    proof (rule exI[of _ d'], intro conjI)
      show "coerce_old_format (PDict d) = Inr (PDict d')" by (rule co)
      show "map_of d' ''data'' = None" by (rule c1)
      show "map_of d' ''result''
           = (case map_of d ''data'' of None \<Rightarrow> map_of d ''result'' | Some x \<Rightarrow> Some x)"
        by (rule c2)
      show "\<forall>k \<in> set legacy_fields. map_of d' k = None" by (rule c4a)
      show "map_of d ''metadata'' = None \<or> (\<exists>m. map_of d ''metadata'' = Some (PDict m)) \<longrightarrow>
          (\<exists>m'. map_of d' ''metadata'' = Some (PDict m')
             \<and> (\<forall>k \<in> set legacy_fields.
                   map_of m' k = (case map_of d k of
                                    None \<Rightarrow> map_of (nested_metadata d) k | Some x \<Rightarrow> Some x))
             \<and> (\<forall>k. k \<notin> set legacy_fields \<longrightarrow> map_of m' k = map_of (nested_metadata d) k))"
        using c4b by blast
      show "map_of d ''metadata'' \<noteq> None \<and> (\<forall>k \<in> set legacy_fields. map_of d k = None) \<longrightarrow>
          map_of d' ''metadata'' = map_of d ''metadata''"
        by (rule same_md)
      show "\<forall>k. k \<notin> set ([''data'', ''result'', ''metadata''] @ legacy_fields)
              \<longrightarrow> map_of d' k = map_of d k"
        by (rule c6)
      show "map_of d ''data'' = None \<and> map_of d ''metadata'' \<noteq> None
            \<and> (\<forall>k \<in> set legacy_fields. map_of d k = None) \<longrightarrow> d' = d"
        by (rule c7)
      show "coerce_old_format (PDict d') = Inr (PDict d')" by (rule idem)
      show "validate_record E (PDict d) = validate_record E (PDict d')" by (rule later)
      show "\<forall>blob s ex ser pv v.
           json_loads E blob = Some (PDict d)
           \<and> map_of d ''metadata'' = None
           \<and> map_of d ''data'' = Some (PStr s)
           \<and> validate_optional (validate_datetime E) (map_of d ''expiration'') = Inr ex
           \<and> validate_default (validate_serializer E) (PickleSerializer E)
                (map_of d ''serializer'') = Inr ser
           \<and> validate_default validate_str (prefect_version_now E)
                (map_of d ''prefect_version'') = Inr pv
           \<and> loads E ser s = Inr v
           \<longrightarrow> deserialize E blob
                = Inr \<lparr>metadata = \<lparr>ResultRecordMetadata.storage_key = None,
                          ResultRecordMetadata.expiration = ex,
                          ResultRecordMetadata.serializer = ser, prefect_version = pv,
                          ResultRecordMetadata.storage_block_id = None\<rparr>,
                       result = v\<rparr>"
        by (rule acc)
    qed
  next
    case False
    with assms have nl: "\<forall>k \<in> set legacy_fields. map_of d k = None" by blast
    from False obtain v where v: "map_of d ''metadata'' = Some v" by auto
    define d' where "d' = (case map_of d ''data'' of None \<Rightarrow> d
                           | Some x \<Rightarrow> AList.update ''result'' x (AList.delete ''data'' d))"
    have co: "coerce_old_format (PDict d) = Inr (PDict d')"
      unfolding d'_def by (rule coerce_old_format_no_legacy[OF nl v])
    have dm: "map_of d' = (case map_of d ''data'' of None \<Rightarrow> map_of d
                    | Some x \<Rightarrow> ((map_of d)(''data'' := None))(''result'' \<mapsto> x))"
      by (simp add: d'_def update_conv' delete_conv' split: option.split)
    have c1: "map_of d' ''data'' = None"
      by (simp add: dm split: option.split)
    have c2: "map_of d' ''result''
           = (case map_of d ''data'' of None \<Rightarrow> map_of d ''result'' | Some x \<Rightarrow> Some x)"
      by (simp add: dm split: option.split)
    have c3: "map_of d' ''metadata'' = map_of d ''metadata''"
      by (simp add: dm split: option.split)
    have c4: "\<forall>k \<in> set legacy_fields. map_of d' k = None"
      using nl by (simp add: dm legacy_fields_def split: option.split)
    have c6: "\<forall>k. k \<notin> set ([''data'', ''result'', ''metadata''] @ legacy_fields)
              \<longrightarrow> map_of d' k = map_of d k"
      by (simp add: dm split: option.split)
    have c7: "map_of d ''data'' = None \<and> map_of d ''metadata'' \<noteq> None
            \<and> (\<forall>k \<in> set legacy_fields. map_of d k = None) \<longrightarrow> d' = d"
      by (simp add: d'_def)
    have idem: "coerce_old_format (PDict d') = Inr (PDict d')"
      using c1 c3 c4 v by (intro coerce_old_format_nested) (simp_all add: legacy_fields_def)
    have later: "validate_record E (PDict d) = validate_record E (PDict d')"
      by (simp add: validate_record_def co idem)
    show ?thesis
    proof (rule exI[of _ d'], intro conjI)
      show "coerce_old_format (PDict d) = Inr (PDict d')" by (rule co)
      show "map_of d' ''data'' = None" by (rule c1)
      show "map_of d' ''result''
           = (case map_of d ''data'' of None \<Rightarrow> map_of d ''result'' | Some x \<Rightarrow> Some x)"
        by (rule c2)
      show "\<forall>k \<in> set legacy_fields. map_of d' k = None" by (rule c4)
      show "map_of d ''metadata'' = None \<or> (\<exists>m. map_of d ''metadata'' = Some (PDict m)) \<longrightarrow>
          (\<exists>m'. map_of d' ''metadata'' = Some (PDict m')
             \<and> (\<forall>k \<in> set legacy_fields.
                   map_of m' k = (case map_of d k of
                                    None \<Rightarrow> map_of (nested_metadata d) k | Some x \<Rightarrow> Some x))
             \<and> (\<forall>k. k \<notin> set legacy_fields \<longrightarrow> map_of m' k = map_of (nested_metadata d) k))"
        using False by blast
      show "map_of d ''metadata'' \<noteq> None \<and> (\<forall>k \<in> set legacy_fields. map_of d k = None) \<longrightarrow>
          map_of d' ''metadata'' = map_of d ''metadata''"
        using c3 by simp
      show "\<forall>k. k \<notin> set ([''data'', ''result'', ''metadata''] @ legacy_fields)
              \<longrightarrow> map_of d' k = map_of d k"
        by (rule c6)
      show "map_of d ''data'' = None \<and> map_of d ''metadata'' \<noteq> None
            \<and> (\<forall>k \<in> set legacy_fields. map_of d k = None) \<longrightarrow> d' = d"
        by (rule c7)
      show "coerce_old_format (PDict d') = Inr (PDict d')" by (rule idem)
      show "validate_record E (PDict d) = validate_record E (PDict d')" by (rule later)
      show "\<forall>blob s ex ser pv v.
           json_loads E blob = Some (PDict d)
           \<and> map_of d ''metadata'' = None
           \<and> map_of d ''data'' = Some (PStr s)
           \<and> validate_optional (validate_datetime E) (map_of d ''expiration'') = Inr ex
           \<and> validate_default (validate_serializer E) (PickleSerializer E)
                (map_of d ''serializer'') = Inr ser
           \<and> validate_default validate_str (prefect_version_now E)
                (map_of d ''prefect_version'') = Inr pv
           \<and> loads E ser s = Inr v
           \<longrightarrow> deserialize E blob
                = Inr \<lparr>metadata = \<lparr>ResultRecordMetadata.storage_key = None,
                          ResultRecordMetadata.expiration = ex,
                          ResultRecordMetadata.serializer = ser, prefect_version = pv,
                          ResultRecordMetadata.storage_block_id = None\<rparr>,
                       result = v\<rparr>"
        by (rule acc)
    qed
  qed
qed

text \<open>Witness for C8: a flat legacy record has no \<^verbatim>\<open>metadata\<close> entry; the adapter folds
  it into the nested shape, and its JSON text deserializes to the record with the legacy
  fields as metadata and the decoded payload \<^verbatim>\<open>{"a": 1}\<close> as result.\<close>

theorem coerce_old_format_migrates_witness:
  "map_of legacy_dict ''metadata'' = None
   \<and> json_loads legacy_env (render_json (PDict legacy_dict)) = Some (PDict legacy_dict)
   \<and> coerce_old_format (PDict legacy_dict)
       = Inr (PDict [(''result'', PStr (render_json sample_value)),
                     (''metadata'', PDict [(''expiration'', PNone),
                        (''serializer'', PDict [(''type'', PStr ''json'')]),
                        (''prefect_version'', PStr ''2.14.0'')])])
   \<and> deserialize legacy_env (render_json (PDict legacy_dict))
       = Inr \<lparr>metadata = \<lparr>ResultRecordMetadata.storage_key = None,
                 ResultRecordMetadata.expiration = None,
                 ResultRecordMetadata.serializer = json_serializer,
                 prefect_version = ''2.14.0'',
                 ResultRecordMetadata.storage_block_id = None\<rparr>,
               result = sample_value\<rparr>"
proof -
  have flat: "map_of legacy_dict ''metadata'' = None"
    and data: "map_of legacy_dict ''data'' = Some (PStr (render_json sample_value))"
    by (simp_all add: legacy_dict_def)
  have h: "map_of legacy_dict ''metadata'' = None
           \<or> (\<exists>m. map_of legacy_dict ''metadata'' = Some (PDict m))
           \<or> (\<forall>k \<in> set legacy_fields. map_of legacy_dict k = None)"
    using flat by simp
  have jl: "json_loads legacy_env (render_json (PDict legacy_dict)) = Some (PDict legacy_dict)"
    by (simp add: legacy_env_def test_env_def decode_among_def)
  have ex: "validate_optional (validate_datetime legacy_env) (map_of legacy_dict ''expiration'')
              = Inr None"
    by (simp add: legacy_dict_def validate_optional_def)
  have ser: "validate_default (validate_serializer legacy_env) (PickleSerializer legacy_env)
               (map_of legacy_dict ''serializer'') = Inr json_serializer"
    by (simp add: legacy_dict_def validate_default_def legacy_env_def test_env_def
        json_serializer_def)
  have pv: "validate_default validate_str (prefect_version_now legacy_env)
              (map_of legacy_dict ''prefect_version'') = Inr ''2.14.0''"
    by (simp add: legacy_dict_def validate_default_def validate_str_def)
  have ld: "loads legacy_env json_serializer (render_json sample_value) = Inr sample_value"
    by (simp add: legacy_env_def test_env_def json_serializer_def decode_among_def
        legacy_dict_def render_sample_value)
  have co: "coerce_old_format (PDict legacy_dict)
       = Inr (PDict [(''result'', PStr (render_json sample_value)),
                     (''metadata'', PDict [(''expiration'', PNone),
                        (''serializer'', PDict [(''type'', PStr ''json'')]),
                        (''prefect_version'', PStr ''2.14.0'')])])"
    by (simp add: legacy_dict_def coerce_old_format_def move_into_metadata_def)
  from coerce_old_format_migrates[OF h, of legacy_env]
  have "\<forall>blob s ex ser pv v.
           json_loads legacy_env blob = Some (PDict legacy_dict)
           \<and> map_of legacy_dict ''metadata'' = None
           \<and> map_of legacy_dict ''data'' = Some (PStr s)
           \<and> validate_optional (validate_datetime legacy_env) (map_of legacy_dict ''expiration'')
               = Inr ex
           \<and> validate_default (validate_serializer legacy_env) (PickleSerializer legacy_env)
                (map_of legacy_dict ''serializer'') = Inr ser
           \<and> validate_default validate_str (prefect_version_now legacy_env)
                (map_of legacy_dict ''prefect_version'') = Inr pv
           \<and> loads legacy_env ser s = Inr v
           \<longrightarrow> deserialize legacy_env blob
                = Inr \<lparr>metadata = \<lparr>ResultRecordMetadata.storage_key = None,
                          ResultRecordMetadata.expiration = ex,
                          ResultRecordMetadata.serializer = ser, prefect_version = pv,
                          ResultRecordMetadata.storage_block_id = None\<rparr>,
                       result = v\<rparr>"
    by blast
  with jl flat data ex ser pv ld
  have de: "deserialize legacy_env (render_json (PDict legacy_dict))
       = Inr \<lparr>metadata = \<lparr>ResultRecordMetadata.storage_key = None,
                 ResultRecordMetadata.expiration = None,
                 ResultRecordMetadata.serializer = json_serializer,
                 prefect_version = ''2.14.0'',
                 ResultRecordMetadata.storage_block_id = None\<rparr>,
               result = sample_value\<rparr>"
    by blast
  show ?thesis using flat jl co de by simp
qed

text \<open>Counterexample to C8 as stated (for every input dictionary): with a
  \<^verbatim>\<open>metadata\<close> entry that is \<^verbatim>\<open>None\<close> and a top-level \<^verbatim>\<open>expiration\<close>, the item
  assignment on \<^verbatim>\<open>value["metadata"]\<close> raises \<^verbatim>\<open>TypeError\<close>: nothing is moved and no
  dictionary is returned.\<close>

theorem coerce_old_format_metadata_not_dict:
  "coerce_old_format (PDict [(''metadata'', PNone), (''expiration'', PStr ''2024-01-01T00:00:00Z'')])
     = Inl TypeError"
  by (simp add: coerce_old_format_def move_into_metadata_def)

section \<open>Existence checks\<close>

text \<open>
  Claim C7, as amended. \<^verbatim>\<open>exists\<close> returns a boolean and never raises. With a metadata
  storage configured it makes one backend call, a read of the key on the metadata storage,
  and returns whether that read returned; with none configured it does the same on the
  result storage; with neither it makes no call and returns false. So a missing key, a
  backend fault and an unconfigured storage give false. The bytes read are not decoded:
  a key that holds a corrupt record counts as existing.
\<close>

theorem exists_probe:
  "(metadata_storage S = Some ms \<longrightarrow>
      ResultStore_exists W S key
        = (W\<lparr>io_log := io_log W @ [Read (backing ms) key]\<rparr>, readable W ms key))
   \<and> (metadata_storage S = None \<and> result_storage S = Some rs \<longrightarrow>
      ResultStore_exists W S key
        = (W\<lparr>io_log := io_log W @ [Read (backing rs) key]\<rparr>, readable W rs key))
   \<and> (metadata_storage S = None \<and> result_storage S = None \<longrightarrow>
      ResultStore_exists W S key = (W, False))"
  by (auto simp: ResultStore_exists_def ResultStore__exists_def read_path_def readable_def
      split: option.splits)

text \<open>Witness for C7: on the store with separate metadata storage, the probe of \<open>k\<close>
  reads backing store 1 only and finds the metadata; the probe of a missing key gives
  false.\<close>

theorem exists_probe_witness:
  "metadata_storage split_store = Some (test_block 1)
   \<and> ResultStore_exists split_world split_store ''k''
       = (split_world\<lparr>io_log := [Read 1 ''k'']\<rparr>, True)
   \<and> ResultStore_exists split_world split_store ''missing''
       = (split_world\<lparr>io_log := [Read 1 ''missing'']\<rparr>, False)"
  using exists_probe[of split_store "test_block 1" split_world "''k''"]
    exists_probe[of split_store "test_block 1" split_world "''missing''"]
  by (simp add: split_store_def split_world_def test_store_def test_block_def empty_world_def
      readable_def)

text \<open>Counterexample to C7 as stated (a corrupt record yields false): the key \<open>k\<close>
  holds bytes that are not a record, reading it raises a validation error, and the
  existence check returns true.\<close>

theorem exists_true_on_corrupt_record:
  "snd (ResultStore_exists corrupt_world test_store ''k'') = True
   \<and> map_option snd (ResultStore_read (test_env []) corrupt_world test_store ''k'' None)
       = Some (Inl ValidationError)"
  by (simp add: ResultStore_exists_def ResultStore__exists_def ResultStore_read_def
      ResultStore__read_def read_path_def corrupt_world_def test_store_def test_block_def
      empty_world_def deserialize_def model_validate_json_def test_env_def decode_among_def)

section \<open>Writing under a lock held by another\<close>

lemma write_path_locks: "write_path W b k c = (W', r) \<Longrightarrow> locks W' = locks W"
  by (auto simp: write_path_def split: option.splits)

lemma persist_keeps_locks:
  "locks (fst (fst (ResultStore__persist_result_record E W S rr holder))) = locks W"
  by (auto simp: ResultStore__persist_result_record_def Let_def
      split: option.splits sum.splits prod.splits dest!: write_path_locks)

lemma locked_write_refused:
  assumes "lock_manager S = Some lm"
    and "ResultRecordMetadata.storage_key (metadata rr) = Some key"
    and "locks W lm key = Some h"
    and "h \<noteq> holder_or_default E (Some holder)"
  shows "ResultStore__persist_result_record E W S rr holder = ((W, S), Inl RuntimeError)"
  using assms
  by (simp add: ResultStore__persist_result_record_def is_locked_def is_lock_holder_def
      lm_is_locked_def lm_is_lock_holder_def)

text \<open>
  Claim C3. On a store with a lock manager, persisting a record whose key is locked by a
  holder other than the caller returns at once with \<^verbatim>\<open>RuntimeError\<close>, which is neither
  the serialization nor the configuration error class; the world (files, backend calls,
  locks) and the store are as before. And no call of \<^verbatim>\<open>_persist_result_record\<close>, whatever
  its outcome, changes the locks.
\<close>

theorem persist_locked_by_other:
  assumes "lock_manager S = Some lm"
    and "ResultRecordMetadata.storage_key (metadata rr) = Some key"
    and "locks W lm key = Some h"
    and "h \<noteq> holder_or_default E (Some holder)"
  shows "ResultStore__persist_result_record E W S rr holder = ((W, S), Inl RuntimeError)
     \<and> RuntimeError \<noteq> SerializationError \<and> RuntimeError \<noteq> ConfigurationError
     \<and> (\<forall>W0 S0 rr0 h0.
           locks (fst (fst (ResultStore__persist_result_record E W0 S0 rr0 h0))) = locks W0)"
  using locked_write_refused[OF assms] by (simp add: persist_keeps_locks)

text \<open>Witness for C3: after \<open>h1\<close> has acquired the lock of \<open>k\<close>, a write by \<open>h2\<close>
  fails and leaves the world as it was.\<close>

theorem persist_locked_by_other_witness:
  "lock_manager locking_store = Some 0
   \<and> ResultRecordMetadata.storage_key (metadata (sample_record ''k'')) = Some ''k''
   \<and> locks locked_world 0 ''k'' = Some ''h1''
   \<and> ''h1'' \<noteq> holder_or_default sample_env (Some ''h2'')
   \<and> ResultStore__persist_result_record sample_env locked_world locking_store
        (sample_record ''k'') ''h2''
       = ((locked_world, locking_store), Inl RuntimeError)"
proof -
  have a: "lock_manager locking_store = Some 0"
    by (simp add: locking_store_def)
  have b: "ResultRecordMetadata.storage_key (metadata (sample_record ''k'')) = Some ''k''"
    by (simp add: sample_record_def sample_metadata_def)
  have c: "locks locked_world 0 ''k'' = Some ''h1''"
    by (simp add: locked_world_def lm_acquire_lock_def empty_world_def)
  have d: "''h1'' \<noteq> holder_or_default sample_env (Some ''h2'')"
    by (simp add: holder_or_default_def)
  from persist_locked_by_other[OF a b c d] a b c d show ?thesis by simp
qed

text \<open>The lock exclusion scenario of the specification: \<open>h1\<close> acquires the lock of
  \<open>k\<close>; a write of \<open>k\<close> by \<open>h2\<close> raises; \<open>h1\<close> releases; \<open>h2\<close> then acquires the lock
  and its write returns.\<close>

lemma lock_exclusion_scenario:
  "acquire_lock sample_env empty_world locking_store ''k'' (Some ''h1'') None
     = Some (locked_world, Inr True)
   \<and> snd (ResultStore_write sample_env locked_world locking_store (Some ''k'') sample_value
            None (Some ''h2'')) = Inl RuntimeError
   \<and> release_lock sample_env locked_world locking_store ''k'' (Some ''h1'')
       = (empty_world, Inr ())
   \<and> map_option snd (acquire_lock sample_env empty_world locking_store ''k'' (Some ''h2'') None)
       = Some (Inr True)
   \<and> snd (ResultStore_write sample_env empty_world locking_store (Some ''k'') sample_value
            None (Some ''h2'')) = Inr ()"
proof -
  have lw: "locked_world = empty_world\<lparr>locks := (locks empty_world)(0 := (locks empty_world 0)(''k'' \<mapsto> ''h1''))\<rparr>"
    by (simp add: locked_world_def lm_acquire_lock_def empty_world_def)
  have a: "acquire_lock sample_env empty_world locking_store ''k'' (Some ''h1'') None
     = Some (locked_world, Inr True)"
    by (simp add: acquire_lock_def locking_store_def lm_acquire_lock_def holder_or_default_def
        lw empty_world_def)
  have c: "\<And>W. create_result_record sample_env W locking_store (Some ''k'') sample_value None
             = (W, Inr (sample_record ''k''))"
    by (simp add: create_result_record_def validate_optional_def validate_str_def
        locking_store_def test_store_def sample_record_def sample_metadata_def
        sample_env_def test_env_def result_storage_block_id_def test_block_def)
  have lm: "lock_manager locking_store = Some 0"
    and ms: "metadata_storage locking_store = None"
    and rs: "test_block 0 = (case result_storage locking_store of
                None \<Rightarrow> default_result_storage sample_env | Some b \<Rightarrow> b)"
    by (simp_all add: locking_store_def test_store_def)
  have sk: "ResultRecordMetadata.storage_key (metadata (sample_record ''k'')) = Some ''k''"
    by (simp add: sample_record_def sample_metadata_def)
  have h2: "holder_or_default sample_env (Some ''h2'') = ''h2''"
    by (simp add: holder_or_default_def)
  have lk: "locks locked_world 0 ''k'' = Some ''h1''"
    by (simp add: lw)
  have ne: "''h1'' \<noteq> holder_or_default sample_env (Some ''h2'')"
    by (simp add: h2)
  have b: "snd (ResultStore_write sample_env locked_world locking_store (Some ''k'') sample_value
            None (Some ''h2'')) = Inl RuntimeError"
    using locked_write_refused[OF lm sk lk ne]
    by (simp add: ResultStore_write_def c persist_result_record_def h2)
  have r: "release_lock sample_env locked_world locking_store ''k'' (Some ''h1'')
       = (empty_world, Inr ())"
    by (simp add: release_lock_def lm lm_release_lock_def holder_or_default_def lw empty_world_def
        fun_eq_iff)
  have a2: "map_option snd (acquire_lock sample_env empty_world locking_store ''k'' (Some ''h2'') None)
       = Some (Inr True)"
    by (simp add: acquire_lock_def lm lm_acquire_lock_def empty_world_def)
  have jd: "json_dumps sample_env = render_json"
    by (simp add: sample_env_def test_env_def)
  have sm: "ResultRecordMetadata.serializer (sample_metadata ''k'') = json_serializer"
    by (simp add: sample_metadata_def)
  have ser: "serialize sample_env (sample_record ''k'') = Inr (render_json (sample_document ''k''))"
    by (simp add: serialize_def serialize_result_def sample_record_def sm sample_dumps
        sample_utf8 sample_document_def jd)
  have free: "locks empty_world 0 ''k'' = None" "faults empty_world (backing (test_block 0)) ''k'' = None"
    by (simp_all add: empty_world_def)
  have d: "snd (ResultStore_write sample_env empty_world locking_store (Some ''k'') sample_value
            None (Some ''h2'')) = Inr ()"
    using free ser
    by (simp add: ResultStore_write_def c persist_result_record_def h2
        ResultStore__persist_result_record_def sk lm ms is_locked_def lm_is_locked_def
        rs[symmetric] write_path_def Let_def)
  show ?thesis using a b r a2 d by simp
qed

section \<open>References with persistence disabled\<close>

text \<open>
  Claim C5. For every \<^verbatim>\<open>PersistedResult\<close> with \<^verbatim>\<open>serialize_to_none\<close> set, whatever its
  other fields, the serialized form is \<^verbatim>\<open>None\<close> and not an empty object, and \<^verbatim>\<open>write\<close>
  returns with the world (and so the backend calls) and the reference unchanged.
\<close>

theorem serialize_to_none_shape:
  assumes "serialize_to_none self"
  shows "serialize_model self = PNone \<and> serialize_model self \<noteq> PDict []
     \<and> PersistedResult_write E W self obj = ((W, self), Inr ())"
  using assms by (simp add: serialize_model_def PersistedResult_write_def)

text \<open>Witness for C5: the reference with persistence disabled.\<close>

theorem serialize_to_none_shape_witness:
  "serialize_to_none disabled_reference
   \<and> serialize_model disabled_reference = PNone
   \<and> PersistedResult_write sample_env empty_world disabled_reference (Some (PInt 5))
       = ((empty_world, disabled_reference), Inr ())"
  using serialize_to_none_shape[of disabled_reference sample_env empty_world "Some (PInt 5)"]
  by (simp add: disabled_reference_def)

section \<open>Reading and writing records\<close>

lemma holder_or_default_idem:
  "holder_or_default E (Some (holder_or_default E h)) = holder_or_default E h"
  by (simp add: holder_or_default_def split: option.split)

lemma read_no_wait:
  assumes "\<forall>lm. lock_manager S = Some lm \<longrightarrow>
             locks W lm key = None \<or> locks W lm key = Some (holder_or_default E holder)"
  shows "(if lock_manager S \<noteq> None
             \<and> is_lock_holder E W S key (Some (holder_or_default E holder)) \<noteq> Inr True
          then wait_for_lock W S key None else Some (Inr True)) = Some (Inr True)"
  using assms
  by (auto simp: is_lock_holder_def wait_for_lock_def lm_wait_for_lock_def lm_is_locked_def
      lm_is_lock_holder_def holder_or_default_idem)

lemma validate_metadata_dump:
  assumes "validate_serializer E (dump_serializer (ResultRecordMetadata.serializer md))
             = Some (ResultRecordMetadata.serializer md)"
    and "\<forall>u. ResultRecordMetadata.storage_block_id md = Some u \<longrightarrow> validate_uuid E (PStr u) = Some u"
    and "\<forall>t. ResultRecordMetadata.expiration md = Some t \<longrightarrow> validate_datetime E (PStr t) = Some t"
  shows "metadata_round_trips E md"
  using assms
  by (cases md)
     (auto simp: metadata_round_trips_def validate_metadata_def dump_metadata_def dump_optional_def
      validate_optional_def validate_default_def validate_str_def split: option.splits)

lemma coerce_record_document:
  "coerce_old_format (PDict [(''metadata'', m), (''result'', r)])
     = Inr (PDict [(''metadata'', m), (''result'', r)])"
  by (simp add: coerce_old_format_def move_into_metadata_def)

lemma deserialize_serialize:
  assumes "dumps E (ResultRecordMetadata.serializer md) v = Inr b"
    and "utf8_valid b"
    and "loads E (ResultRecordMetadata.serializer md) b = Inr v"
    and "metadata_round_trips E md"
    and "codec_round_trips E (PDict [(''metadata'', dump_metadata md), (''result'', PStr b)])"
  shows "serialize E \<lparr>metadata = md, result = v\<rparr>
           = Inr (json_dumps E (PDict [(''metadata'', dump_metadata md), (''result'', PStr b)]))"
    and "deserialize E (json_dumps E (PDict [(''metadata'', dump_metadata md), (''result'', PStr b)]))
           = Inr \<lparr>metadata = md, result = v\<rparr>"
  using assms
  by (simp_all add: serialize_def serialize_result_def deserialize_def model_validate_json_def
      validate_record_def coerce_record_document metadata_round_trips_def codec_round_trips_def)

lemma split_deserialize:
  assumes "dumps E (ResultRecordMetadata.serializer md) v = Inr b"
    and "loads E (ResultRecordMetadata.serializer md) b = Inr v"
    and "metadata_round_trips E md"
    and "codec_round_trips E (dump_metadata md)"
  shows "serialize_result E \<lparr>metadata = md, result = v\<rparr> = Inr b"
    and "deserialize_from_result_and_metadata E b (serialize_metadata E \<lparr>metadata = md, result = v\<rparr>)
           = Inr \<lparr>metadata = md, result = v\<rparr>"
    and "load_bytes E (serialize_metadata E \<lparr>metadata = md, result = v\<rparr>) = Inr md"
  using assms
  by (simp_all add: serialize_result_def deserialize_from_result_and_metadata_def load_bytes_def
      serialize_metadata_def dump_bytes_def metadata_round_trips_def codec_round_trips_def)

lemma persist_not_contested:
  assumes "\<forall>lm. lock_manager S = Some lm \<longrightarrow>
             locks W lm key = None \<or> locks W lm key = Some (holder_or_default E holder)"
  shows "\<not> (lock_manager S \<noteq> None \<and> is_locked W S key = Inr True
            \<and> is_lock_holder E W S key (Some (holder_or_default E holder)) \<noteq> Inr True)"
  using assms
  by (auto simp: is_locked_def is_lock_holder_def lm_is_locked_def lm_is_lock_holder_def
      holder_or_default_idem split: option.splits)

lemma persist_combined:
  assumes "ResultRecordMetadata.storage_key (metadata rr) = Some key"
    and "metadata_storage S = None"
    and "\<not> (lock_manager S \<noteq> None \<and> is_locked W S key = Inr True
            \<and> is_lock_holder E W S key (Some h) \<noteq> Inr True)"
    and "serialize E rr = Inr content"
    and "rs = (case result_storage S of None \<Rightarrow> default_result_storage E | Some b \<Rightarrow> b)"
    and "faults W (backing rs) key = None"
  shows "ResultStore__persist_result_record E W S rr h
           = ((W\<lparr>files := (files W)(backing rs := (files W (backing rs))(key \<mapsto> content)),
                  io_log := io_log W @ [Write (backing rs) key content]\<rparr>,
               S\<lparr>result_storage := Some rs\<rparr>), Inr ())"
  using assms
  by (simp add: ResultStore__persist_result_record_def Let_def write_path_def)

lemma persist_split:
  assumes "ResultRecordMetadata.storage_key (metadata rr) = Some key"
    and "metadata_storage S = Some ms"
    and "\<not> (lock_manager S \<noteq> None \<and> is_locked W S key = Inr True
            \<and> is_lock_holder E W S key (Some h) \<noteq> Inr True)"
    and "serialize_result E rr = Inr payload"
    and "rs = (case result_storage S of None \<Rightarrow> default_result_storage E | Some b \<Rightarrow> b)"
    and "faults W (backing rs) key = None"
    and "faults W (backing ms) key = None"
  shows "ResultStore__persist_result_record E W S rr h
           = ((W\<lparr>files := ((files W)(backing rs := (files W (backing rs))(key \<mapsto> payload)))
                    (backing ms := (((files W)(backing rs := (files W (backing rs))(key \<mapsto> payload)))
                                      (backing ms))(key \<mapsto> serialize_metadata E rr)),
                  io_log := io_log W @ [Write (backing rs) key payload,
                                        Write (backing ms) key (serialize_metadata E rr)]\<rparr>,
               S\<lparr>result_storage := Some rs\<rparr>), Inr ())"
  using assms
  by (simp add: ResultStore__persist_result_record_def Let_def write_path_def)

lemma read_combined:
  assumes "(if lock_manager S \<noteq> None \<and> is_lock_holder E W S key (Some h) \<noteq> Inr True
            then wait_for_lock W S key None else Some (Inr True)) = Some (Inr True)"
    and "metadata_storage S = None"
    and "rs = (case result_storage S of None \<Rightarrow> default_result_storage E | Some b \<Rightarrow> b)"
    and "faults W (backing rs) key = None"
    and "files W (backing rs) key = Some content"
  shows "ResultStore__read E W S key h
           = Some ((W\<lparr>io_log := io_log W @ [Read (backing rs) key]\<rparr>,
                    S\<lparr>result_storage := Some rs\<rparr>), deserialize E content)"
  using assms(2-) unfolding ResultStore__read_def assms(1)
  by (simp add: Let_def read_path_def)

lemma read_split:
  assumes "(if lock_manager S \<noteq> None \<and> is_lock_holder E W S key (Some h) \<noteq> Inr True
            then wait_for_lock W S key None else Some (Inr True)) = Some (Inr True)"
    and "metadata_storage S = Some ms"
    and "rs = (case result_storage S of None \<Rightarrow> default_result_storage E | Some b \<Rightarrow> b)"
    and "faults W (backing ms) key = None"
    and "files W (backing ms) key = Some metadata_content"
    and "load_bytes E metadata_content = Inr md"
    and "ResultRecordMetadata.storage_key md = Some sk"
    and "faults W (backing rs) sk = None"
    and "files W (backing rs) sk = Some result_content"
  shows "ResultStore__read E W S key h
           = Some ((W\<lparr>io_log := io_log W @ [Read (backing ms) key, Read (backing rs) sk]\<rparr>,
                    S\<lparr>result_storage := Some rs\<rparr>),
                   deserialize_from_result_and_metadata E result_content metadata_content)"
  using assms(2-) unfolding ResultStore__read_def assms(1)
  by (simp add: Let_def read_path_def)

lemma create_result_record_given_key:
  "key \<noteq> [] \<Longrightarrow>
   create_result_record E W S (Some key) v ex
     = (W, Inr \<lparr>metadata = \<lparr>ResultRecordMetadata.storage_key = Some key,
                    ResultRecordMetadata.expiration = ex,
                    ResultRecordMetadata.serializer = ResultStore.serializer S,
                    prefect_version = prefect_version_now E,
                    ResultRecordMetadata.storage_block_id = result_storage_block_id S\<rparr>,
                  result = v\<rparr>)"
  by (simp add: create_result_record_def validate_optional_def validate_str_def)

text \<open>
  Claim C6. With a separate metadata storage configured, and the lock of the key free or
  held by the caller, \<^verbatim>\<open>read(key)\<close> reads the metadata blob from metadata storage under
  the key. When the decoded metadata has no storage key it raises \<^verbatim>\<open>AssertionError\<close>.
  When it records the storage key \<open>sk\<close>, the payload is read from result storage under
  \<open>sk\<close>, whether or not \<open>sk\<close> is the key, and the record returned has the decoded
  metadata and the payload decoded by the serializer the metadata names. These two reads
  are the only backend calls.
\<close>

theorem split_read_indirects:
  assumes "metadata_storage S = Some ms"
    and "\<forall>lm. lock_manager S = Some lm \<longrightarrow>
             locks W lm key = None \<or> locks W lm key = Some (holder_or_default E holder)"
    and "faults W (backing ms) key = None"
    and "files W (backing ms) key = Some metadata_content"
    and "load_bytes E metadata_content = Inr md"
    and "rs = (case result_storage S of None \<Rightarrow> default_result_storage E | Some b \<Rightarrow> b)"
  shows "(ResultRecordMetadata.storage_key md = None \<longrightarrow>
           ResultStore_read E W S key holder
             = Some ((W\<lparr>io_log := io_log W @ [Read (backing ms) key]\<rparr>,
                      S\<lparr>result_storage := Some rs\<rparr>), Inl AssertionError))
     \<and> (\<forall>sk result_content v.
           ResultRecordMetadata.storage_key md = Some sk
           \<and> faults W (backing rs) sk = None
           \<and> files W (backing rs) sk = Some result_content
           \<and> loads E (ResultRecordMetadata.serializer md) result_content = Inr v \<longrightarrow>
           ResultStore_read E W S key holder
             = Some ((W\<lparr>io_log := io_log W @ [Read (backing ms) key, Read (backing rs) sk]\<rparr>,
                      S\<lparr>result_storage := Some rs\<rparr>),
                     Inr \<lparr>metadata = md, result = v\<rparr>))"
  using assms(1,3-6) read_no_wait[OF assms(2)]
  by (simp add: ResultStore_read_def ResultStore__read_def read_path_def
      deserialize_from_result_and_metadata_def Let_def)

text \<open>Witness for C6: the metadata stored under \<open>k\<close> records the storage key
  \<open>elsewhere\<close>, and the read of \<open>k\<close> returns the payload stored under \<open>elsewhere\<close>.\<close>

theorem split_read_indirects_witness:
  "metadata_storage split_store = Some (test_block 1)
   \<and> lock_manager split_store = None
   \<and> ResultRecordMetadata.storage_key (sample_metadata ''elsewhere'') = Some ''elsewhere''
   \<and> ResultStore_read sample_env split_world split_store ''k'' None
       = Some ((split_world\<lparr>io_log := [Read 1 ''k'', Read 0 ''elsewhere'']\<rparr>, split_store),
               Inr (sample_record ''elsewhere''))"
proof -
  have a: "metadata_storage split_store = Some (test_block 1)"
    and b: "lock_manager split_store = None"
    and rs: "test_block 0 = (case result_storage split_store of
                None \<Rightarrow> default_result_storage sample_env | Some b \<Rightarrow> b)"
    by (simp_all add: split_store_def test_store_def)
  have l: "\<forall>lm. lock_manager split_store = Some lm \<longrightarrow>
             locks split_world lm ''k'' = None
             \<or> locks split_world lm ''k'' = Some (holder_or_default sample_env None)"
    by (simp add: b)
  have f: "faults split_world (backing (test_block 1)) ''k'' = None"
    and g: "files split_world (backing (test_block 1)) ''k''
              = Some (render_json (dump_metadata (sample_metadata ''elsewhere'')))"
    and f2: "faults split_world (backing (test_block 0)) ''elsewhere'' = None"
    and g2: "files split_world (backing (test_block 0)) ''elsewhere''
              = Some (render_json sample_value)"
    by (simp_all add: split_world_def empty_world_def test_block_def)
  have sk: "ResultRecordMetadata.storage_key (sample_metadata ''elsewhere'') = Some ''elsewhere''"
    and ser: "ResultRecordMetadata.serializer (sample_metadata ''elsewhere'') = json_serializer"
    by (simp_all add: sample_metadata_def)
  from split_read_indirects[OF a l f g sample_load_bytes rs]
  have "ResultStore_read sample_env split_world split_store ''k'' None
       = Some ((split_world\<lparr>io_log := io_log split_world
                    @ [Read (backing (test_block 1)) ''k'',
                       Read (backing (test_block 0)) ''elsewhere'']\<rparr>,
                split_store\<lparr>result_storage := Some (test_block 0)\<rparr>),
               Inr \<lparr>metadata = sample_metadata ''elsewhere'', result = sample_value\<rparr>)"
    using sk f2 g2 sample_loads by (simp add: ser)
  moreover have "io_log split_world = []" "backing (test_block 1) = 1" "backing (test_block 0) = 0"
    "split_store\<lparr>result_storage := Some (test_block 0)\<rparr> = split_store"
    by (simp_all add: split_world_def empty_world_def test_block_def split_store_def test_store_def)
  ultimately show ?thesis using a b sk by (simp add: sample_record_def)
qed

text \<open>
  Claim C1, as amended. For every value, every non-empty key and every serializer that
  is supported (it encodes the value to bytes that it decodes back to the value, UTF-8
  text when the record is stored as one blob, and the metadata that names it validates
  back to itself), on a store whose backends do not fail on the key, whose metadata
  storage, if any, is another backing store than its result storage, and whose lock on
  the key is free or held by the caller: \<^verbatim>\<open>write(key, v)\<close> returns, and
  \<^verbatim>\<open>read(key)\<close> then returns a record whose result is the value and whose metadata
  names the key.
\<close>

theorem write_read_round_trip:
  assumes key: "key \<noteq> []"
    and md: "md = \<lparr>ResultRecordMetadata.storage_key = Some key,
                    ResultRecordMetadata.expiration = ex,
                    ResultRecordMetadata.serializer = ResultStore.serializer S,
                    prefect_version = prefect_version_now E,
                    ResultRecordMetadata.storage_block_id = result_storage_block_id S\<rparr>"
    and rs: "rs = (case result_storage S of None \<Rightarrow> default_result_storage E | Some b \<Rightarrow> b)"
    and dumps: "dumps E (ResultStore.serializer S) v = Inr b"
    and loads: "loads E (ResultStore.serializer S) b = Inr v"
    and mrt: "metadata_round_trips E md"
    and combined: "metadata_storage S = None \<longrightarrow>
           utf8_valid b
           \<and> codec_round_trips E (PDict [(''metadata'', dump_metadata md), (''result'', PStr b)])"
    and split: "\<forall>ms. metadata_storage S = Some ms \<longrightarrow>
           codec_round_trips E (dump_metadata md) \<and> backing ms \<noteq> backing rs
           \<and> faults W (backing ms) key = None"
    and nofault: "faults W (backing rs) key = None"
    and locks: "\<forall>lm. lock_manager S = Some lm \<longrightarrow>
             locks W lm key = None \<or> locks W lm key = Some (holder_or_default E holder)"
  shows "\<exists>W1 W2 r.
           ResultStore_write E W S (Some key) v ex holder
             = ((W1, S\<lparr>result_storage := Some rs\<rparr>), Inr ())
         \<and> ResultStore_read E W1 (S\<lparr>result_storage := Some rs\<rparr>) key holder
             = Some ((W2, S\<lparr>result_storage := Some rs\<rparr>), Inr r)
         \<and> result r = v \<and> metadata r = md"
proof (cases "metadata_storage S")
  case None
  let ?doc = "PDict [(''metadata'', dump_metadata md), (''result'', PStr b)]"
  let ?blob = "json_dumps E ?doc"
  let ?S1 = "S\<lparr>result_storage := Some rs\<rparr>"
  let ?W1 = "W\<lparr>files := (files W)(backing rs := (files W (backing rs))(key \<mapsto> ?blob)),
               io_log := io_log W @ [Write (backing rs) key ?blob]\<rparr>"
  have ser: "ResultRecordMetadata.serializer md = ResultStore.serializer S" by (simp add: md)
  have u: "utf8_valid b" and c: "codec_round_trips E ?doc" using combined None by simp_all
  have s1: "serialize E \<lparr>metadata = md, result = v\<rparr> = Inr ?blob"
    by (rule deserialize_serialize(1)) (simp_all add: ser dumps loads u mrt c)
  have d1: "deserialize E ?blob = Inr \<lparr>metadata = md, result = v\<rparr>"
    by (rule deserialize_serialize(2)) (simp_all add: ser dumps loads u mrt c)
  have sk: "ResultRecordMetadata.storage_key (metadata \<lparr>metadata = md, result = v\<rparr>) = Some key"
    by (simp add: md)
  have p: "ResultStore__persist_result_record E W S \<lparr>metadata = md, result = v\<rparr>
             (holder_or_default E holder) = ((?W1, ?S1), Inr ())"
    by (rule persist_combined[OF sk None persist_not_contested[OF locks] s1 rs nofault])
  have w: "ResultStore_write E W S (Some key) v ex holder = ((?W1, ?S1), Inr ())"
    using p
    by (simp add: ResultStore_write_def create_result_record_given_key[OF key] md[symmetric]
        persist_result_record_def holder_or_default_idem)
  have locks1: "\<forall>lm. lock_manager ?S1 = Some lm \<longrightarrow>
             locks ?W1 lm key = None \<or> locks ?W1 lm key = Some (holder_or_default E holder)"
    using locks by simp
  have r: "ResultStore_read E ?W1 ?S1 key holder
             = Some ((?W1\<lparr>io_log := io_log ?W1 @ [Read (backing rs) key]\<rparr>, ?S1),
                     Inr \<lparr>metadata = md, result = v\<rparr>)"
  proof -
    have sms: "metadata_storage ?S1 = None" using None by simp
    have rs1: "rs = (case result_storage ?S1 of None \<Rightarrow> default_result_storage E | Some b \<Rightarrow> b)"
      by simp
    have f1: "faults ?W1 (backing rs) key = None" using nofault by simp
    have g1: "files ?W1 (backing rs) key = Some ?blob" by simp
    from read_combined[OF read_no_wait[OF locks1] sms rs1 f1 g1]
    show ?thesis by (simp add: ResultStore_read_def d1)
  qed
  show ?thesis using w r by simp
next
  case (Some ms)
  let ?rr = "\<lparr>metadata = md, result = v\<rparr>"
  let ?mb = "serialize_metadata E ?rr"
  let ?S1 = "S\<lparr>result_storage := Some rs\<rparr>"
  let ?F1 = "(files W)(backing rs := (files W (backing rs))(key \<mapsto> b))"
  let ?W1 = "W\<lparr>files := ?F1(backing ms := (?F1 (backing ms))(key \<mapsto> ?mb)),
               io_log := io_log W @ [Write (backing rs) key b, Write (backing ms) key ?mb]\<rparr>"
  have ser: "ResultRecordMetadata.serializer md = ResultStore.serializer S" by (simp add: md)
  have c: "codec_round_trips E (dump_metadata md)" and ne: "backing ms \<noteq> backing rs"
    and nofault_ms: "faults W (backing ms) key = None"
    using split Some by simp_all
  have s1: "serialize_result E ?rr = Inr b"
    by (rule split_deserialize(1)) (simp_all add: ser dumps loads mrt c)
  have d1: "deserialize_from_result_and_metadata E b ?mb = Inr ?rr"
    by (rule split_deserialize(2)) (simp_all add: ser dumps loads mrt c)
  have l1: "load_bytes E ?mb = Inr md"
    by (rule split_deserialize(3)[where v=v and b=b]) (simp_all add: ser dumps loads mrt c)
  have sk: "ResultRecordMetadata.storage_key (metadata ?rr) = Some key"
    by (simp add: md)
  have p: "ResultStore__persist_result_record E W S ?rr (holder_or_default E holder)
             = ((?W1, ?S1), Inr ())"
    by (rule persist_split[OF sk Some persist_not_contested[OF locks] s1 rs nofault nofault_ms])
  have w: "ResultStore_write E W S (Some key) v ex holder = ((?W1, ?S1), Inr ())"
    using p
    by (simp add: ResultStore_write_def create_result_record_given_key[OF key] md[symmetric]
        persist_result_record_def holder_or_default_idem)
  have locks1: "\<forall>lm. lock_manager ?S1 = Some lm \<longrightarrow>
             locks ?W1 lm key = None \<or> locks ?W1 lm key = Some (holder_or_default E holder)"
    using locks by simp
  have skmd: "ResultRecordMetadata.storage_key md = Some key" by (simp add: md)
  have r: "ResultStore_read E ?W1 ?S1 key holder
             = Some ((?W1\<lparr>io_log := io_log ?W1 @ [Read (backing ms) key, Read (backing rs) key]\<rparr>, ?S1),
                     Inr ?rr)"
  proof -
    have sms: "metadata_storage ?S1 = Some ms" using Some by simp
    have rs1: "rs = (case result_storage ?S1 of None \<Rightarrow> default_result_storage E | Some b \<Rightarrow> b)"
      by simp
    have f1: "faults ?W1 (backing ms) key = None" "faults ?W1 (backing rs) key = None"
      using nofault nofault_ms by simp_all
    have g1: "files ?W1 (backing ms) key = Some ?mb" by simp
    have g2: "files ?W1 (backing rs) key = Some b" using ne by simp
    from read_split[OF read_no_wait[OF locks1] sms rs1 f1(1) g1 l1 skmd f1(2) g2]
    show ?thesis by (simp add: ResultStore_read_def d1)
  qed
  show ?thesis using w r by simp
qed

text \<open>Witness for C1: \<^verbatim>\<open>write("k", {"a": 1})\<close> on the test store, then
  \<^verbatim>\<open>read("k")\<close>.\<close>

theorem write_read_round_trip_witness:
  "''k'' \<noteq> []
   \<and> dumps sample_env (ResultStore.serializer test_store) sample_value
       = Inr (render_json sample_value)
   \<and> loads sample_env (ResultStore.serializer test_store) (render_json sample_value)
       = Inr sample_value
   \<and> metadata_round_trips sample_env (sample_metadata ''k'')
   \<and> utf8_valid (render_json sample_value)
   \<and> codec_round_trips sample_env (sample_document ''k'')
   \<and> (\<exists>W1 W2 r.
         ResultStore_write sample_env empty_world test_store (Some ''k'') sample_value None None
           = ((W1, test_store), Inr ())
       \<and> ResultStore_read sample_env W1 test_store ''k'' None = Some ((W2, test_store), Inr r)
       \<and> result r = sample_value)"
proof -
  have s: "ResultStore.serializer test_store = json_serializer"
    and ms: "metadata_storage test_store = None"
    and lm: "lock_manager test_store = None"
    and rs: "test_block 0 = (case result_storage test_store of
                None \<Rightarrow> default_result_storage sample_env | Some b \<Rightarrow> b)"
    and same: "test_store\<lparr>result_storage := Some (test_block 0)\<rparr> = test_store"
    by (simp_all add: test_store_def)
  have md: "sample_metadata ''k''
      = \<lparr>ResultRecordMetadata.storage_key = Some ''k'',
         ResultRecordMetadata.expiration = None,
         ResultRecordMetadata.serializer = ResultStore.serializer test_store,
         prefect_version = prefect_version_now sample_env,
         ResultRecordMetadata.storage_block_id = result_storage_block_id test_store\<rparr>"
    by (simp add: sample_metadata_def s sample_env_def test_env_def result_storage_block_id_def
        test_store_def test_block_def)
  have k: "''k'' \<noteq> []" by simp
  have d: "dumps sample_env (ResultStore.serializer test_store) sample_value
             = Inr (render_json sample_value)"
    and l: "loads sample_env (ResultStore.serializer test_store) (render_json sample_value)
             = Inr sample_value"
    by (simp_all add: s sample_dumps sample_loads)
  have c: "metadata_storage test_store = None \<longrightarrow>
             utf8_valid (render_json sample_value)
             \<and> codec_round_trips sample_env
                 (PDict [(''metadata'', dump_metadata (sample_metadata ''k'')),
                         (''result'', PStr (render_json sample_value))])"
    using sample_utf8 sample_codec by (simp add: sample_document_def)
  have sp: "\<forall>ms. metadata_storage test_store = Some ms \<longrightarrow>
             codec_round_trips sample_env (dump_metadata (sample_metadata ''k''))
             \<and> backing ms \<noteq> backing (test_block 0)
             \<and> faults empty_world (backing ms) ''k'' = None"
    by (simp add: ms)
  have nf: "faults empty_world (backing (test_block 0)) ''k'' = None"
    by (simp add: empty_world_def)
  have lk: "\<forall>lm. lock_manager test_store = Some lm \<longrightarrow>
             locks empty_world lm ''k'' = None
             \<or> locks empty_world lm ''k'' = Some (holder_or_default sample_env None)"
    by (simp add: lm)
  from write_read_round_trip[OF k md rs d l sample_metadata_round_trips c sp nf lk]
  have "\<exists>W1 W2 r.
         ResultStore_write sample_env empty_world test_store (Some ''k'') sample_value None None
           = ((W1, test_store), Inr ())
       \<and> ResultStore_read sample_env W1 test_store ''k'' None = Some ((W2, test_store), Inr r)
       \<and> result r = sample_value"
    unfolding same by blast
  then show ?thesis
    using k d l sample_metadata_round_trips[of "''k''"] sample_utf8 sample_codec
    by blast
qed

text \<open>Counterexample to C1 as stated (every string key): \<^verbatim>\<open>write("", v)\<close> returns
  normally, having stored the record under the minted key \<open>minted-0\<close>; \<^verbatim>\<open>read("")\<close>
  then raises the backend's error for a missing path instead of returning the value.\<close>

theorem write_then_read_empty_key:
  "snd (ResultStore_write sample_env empty_world test_store (Some []) sample_value None None)
     = Inr ()
   \<and> map (\<lambda>c. case c of Write b k content \<Rightarrow> (b, k) | Read b k \<Rightarrow> (b, k))
        (io_log (fst (fst (ResultStore_write sample_env empty_world test_store (Some [])
           sample_value None None))))
     = [(0, ''minted-0'')]
   \<and> map_option snd
        (ResultStore_read sample_env
           (fst (fst (ResultStore_write sample_env empty_world test_store (Some [])
              sample_value None None)))
           test_store [] None)
     = Some (Inl OSError)"
proof -
  have s: "ResultStore.serializer test_store = json_serializer"
    by (simp add: test_store_def)
  have jd: "json_dumps sample_env = render_json"
    by (simp add: sample_env_def test_env_def)
  have sm: "ResultRecordMetadata.serializer (sample_metadata ''minted-0'') = json_serializer"
    by (simp add: sample_metadata_def)
  have ser: "serialize sample_env (sample_record ''minted-0'')
               = Inr (render_json (sample_document ''minted-0''))"
    by (simp add: serialize_def serialize_result_def sample_record_def sm sample_dumps
        sample_utf8 sample_document_def jd)
  have c: "create_result_record sample_env empty_world test_store (Some []) sample_value None
             = (empty_world\<lparr>key_calls := Suc 0\<rparr>, Inr (sample_record ''minted-0''))"
    by (simp add: create_result_record_def mint_key_def validate_optional_def validate_str_def
        test_store_def empty_world_def digits_of.simps sample_record_def sample_metadata_def
        sample_env_def test_env_def result_storage_block_id_def test_block_def)
  let ?W0 = "empty_world\<lparr>key_calls := Suc 0\<rparr>"
  let ?blob = "render_json (sample_document ''minted-0'')"
  let ?W1 = "?W0\<lparr>files := (files ?W0)(backing (test_block 0) :=
                        (files ?W0 (backing (test_block 0)))(''minted-0'' \<mapsto> ?blob)),
               io_log := io_log ?W0 @ [Write (backing (test_block 0)) ''minted-0'' ?blob]\<rparr>"
  have sk: "ResultRecordMetadata.storage_key (metadata (sample_record ''minted-0''))
              = Some ''minted-0''"
    by (simp add: sample_record_def sample_metadata_def)
  have ms: "metadata_storage test_store = None"
    and rs: "test_block 0 = (case result_storage test_store of
                None \<Rightarrow> default_result_storage sample_env | Some b \<Rightarrow> b)"
    and same: "test_store\<lparr>result_storage := Some (test_block 0)\<rparr> = test_store"
    and nc: "\<not> (lock_manager test_store \<noteq> None \<and> is_locked ?W0 test_store ''minted-0'' = Inr True
            \<and> is_lock_holder sample_env ?W0 test_store ''minted-0''
                 (Some (holder_or_default sample_env (Some (holder_or_default sample_env None))))
               \<noteq> Inr True)"
    by (simp_all add: test_store_def)
  have nf: "faults ?W0 (backing (test_block 0)) ''minted-0'' = None"
    by (simp add: empty_world_def)
  have p: "ResultStore__persist_result_record sample_env ?W0 test_store (sample_record ''minted-0'')
             (holder_or_default sample_env (Some (holder_or_default sample_env None)))
           = ((?W1, test_store), Inr ())"
    by (simp only: persist_combined[OF sk ms nc ser rs nf] same)
  have w: "ResultStore_write sample_env empty_world test_store (Some []) sample_value None None
      = ((?W1, test_store), Inr ())"
    by (simp add: ResultStore_write_def c persist_result_record_def p)
  have lg: "io_log ?W1 = [Write 0 ''minted-0'' ?blob]"
    by (simp add: empty_world_def test_block_def)
  have ne: "files ?W1 (backing (test_block 0)) [] = None" "faults ?W1 (backing (test_block 0)) [] = None"
    by (simp_all add: empty_world_def test_block_def)
  have r: "map_option snd (ResultStore_read sample_env ?W1 test_store [] None) = Some (Inl OSError)"
    using ne
    by (simp add: ResultStore_read_def ResultStore__read_def read_path_def test_store_def Let_def)
  show ?thesis
    unfolding w using lg r by simp
qed

section \<open>Key minting on falsy keys\<close>

lemma create_result_record_minted:
  assumes "storage_key_fn S (key_calls W) = Inr (PStr k)"
  shows "create_result_record E W S (Some []) obj ex
           = (W\<lparr>key_calls := Suc (key_calls W)\<rparr>, Inr (record_for E S k obj ex))"
  using assms
  by (simp add: create_result_record_def mint_key_def validate_optional_def validate_str_def
      record_for_def)

lemma write_minted:
  assumes "storage_key_fn S (key_calls W) = Inr (PStr k)"
  shows "ResultStore_write E W S (Some []) obj ex holder
           = ResultStore__persist_result_record E (W\<lparr>key_calls := Suc (key_calls W)\<rparr>) S
               (record_for E S k obj ex) (holder_or_default E holder)"
  by (simp add: ResultStore_write_def create_result_record_minted[OF assms]
      persist_result_record_def holder_or_default_idem)

lemma write_minted_stored:
  assumes fn: "storage_key_fn S (key_calls W) = Inr (PStr k)"
    and ms: "metadata_storage S = None"
    and lk: "\<forall>lm. lock_manager S = Some lm \<longrightarrow>
               locks W lm k = None \<or> locks W lm k = Some (holder_or_default E holder)"
    and ser: "serialize E (record_for E S k obj ex) = Inr content"
    and nf: "faults W (backing (storage_in_use E S)) k = None"
  shows "ResultStore_write E W S (Some []) obj ex holder
           = ((W\<lparr>key_calls := Suc (key_calls W),
                  files := (files W)(backing (storage_in_use E S) :=
                             (files W (backing (storage_in_use E S)))(k \<mapsto> content)),
                  io_log := io_log W @ [Write (backing (storage_in_use E S)) k content]\<rparr>,
               S\<lparr>result_storage := Some (storage_in_use E S)\<rparr>), Inr ())"
proof -
  let ?W0 = "W\<lparr>key_calls := Suc (key_calls W)\<rparr>"
  have sk: "ResultRecordMetadata.storage_key (metadata (record_for E S k obj ex)) = Some k"
    by (simp add: record_for_def)
  have lk0: "\<forall>lm. lock_manager S = Some lm \<longrightarrow>
               locks ?W0 lm k = None \<or> locks ?W0 lm k = Some (holder_or_default E holder)"
    using lk by simp
  have rs: "storage_in_use E S
              = (case result_storage S of None \<Rightarrow> default_result_storage E | Some b \<Rightarrow> b)"
    by (simp add: storage_in_use_def)
  have nf0: "faults ?W0 (backing (storage_in_use E S)) k = None"
    using nf by simp
  from persist_combined[OF sk ms persist_not_contested[OF lk0] ser rs nf0]
  show ?thesis
    by (simp add: write_minted[OF fn])
qed

text \<open>
  Claim C10. An empty-string key is treated as no key: \<^verbatim>\<open>create_result_record\<close>,
  \<^verbatim>\<open>write\<close> and \<^verbatim>\<open>create_result\<close> do with it what they do with an absent key. When the
  store's \<^verbatim>\<open>storage_key_fn\<close> returns the string \<open>k\<close>, one key has been minted and
  \<^verbatim>\<open>create_result_record\<close> returns the record with storage key \<open>k\<close>; \<^verbatim>\<open>write\<close> persists
  that record, and where the record is stored as one blob and nothing stands in the way
  (the lock of \<open>k\<close> is free or the caller's, the record serializes, the backend does not
  fail) the blob is written under \<open>k\<close> by one backend call; and the reference of
  \<^verbatim>\<open>create_result\<close> is built from \<open>k\<close> (the path the block resolves it to, when the block
  has no document id).
\<close>

theorem empty_key_mints:
  "create_result_record E W S (Some []) obj ex = create_result_record E W S None obj ex
   \<and> ResultStore_write E W S (Some []) obj ex holder = ResultStore_write E W S None obj ex holder
   \<and> create_result E W S obj (Some []) ex = create_result E W S obj None ex
   \<and> (storage_key_fn S (key_calls W) = Inr (PStr k) \<longrightarrow>
        create_result_record E W S (Some []) obj ex
          = (W\<lparr>key_calls := Suc (key_calls W)\<rparr>,
             Inr \<lparr>metadata = \<lparr>ResultRecordMetadata.storage_key = Some k,
                     ResultRecordMetadata.expiration = ex,
                     ResultRecordMetadata.serializer = ResultStore.serializer S,
                     prefect_version = prefect_version_now E,
                     ResultRecordMetadata.storage_block_id = result_storage_block_id S\<rparr>,
                   result = obj\<rparr>)
        \<and> ResultStore_write E W S (Some []) obj ex holder
            = ResultStore__persist_result_record E (W\<lparr>key_calls := Suc (key_calls W)\<rparr>) S
                (record_for E S k obj ex) (holder_or_default E holder)
        \<and> (metadata_storage S = None
            \<and> (\<forall>lm. lock_manager S = Some lm \<longrightarrow>
                   locks W lm k = None \<or> locks W lm k = Some (holder_or_default E holder))
            \<and> serialize E (record_for E S k obj ex) = Inr content
            \<and> faults W (backing (storage_in_use E S)) k = None
            \<longrightarrow> ResultStore_write E W S (Some []) obj ex holder
                 = ((W\<lparr>key_calls := Suc (key_calls W),
                        files := (files W)(backing (storage_in_use E S) :=
                                   (files W (backing (storage_in_use E S)))(k \<mapsto> content)),
                        io_log := io_log W @ [Write (backing (storage_in_use E S)) k content]\<rparr>,
                     S\<lparr>result_storage := Some (storage_in_use E S)\<rparr>), Inr ()))
        \<and> (\<exists>W' S' r. create_result E W S obj (Some []) ex = ((W', S'), Inr r)
              \<and> key_calls W' = Suc (key_calls W)
              \<and> PersistedResult.storage_key r
                  = (case infer_path (case result_storage S of
                                        None \<Rightarrow> default_result_storage E | Some b \<Rightarrow> b) k of
                       Some u \<Rightarrow> if result_storage_block_id S' = None then u else k
                     | None \<Rightarrow> k)))"
proof (intro conjI impI)
  show "create_result_record E W S (Some []) obj ex = create_result_record E W S None obj ex"
    by (simp add: create_result_record_def)
  show "ResultStore_write E W S (Some []) obj ex holder = ResultStore_write E W S None obj ex holder"
    by (simp add: ResultStore_write_def create_result_record_def)
  show "create_result E W S obj (Some []) ex = create_result E W S obj None ex"
    by (simp add: create_result_def)
next
  assume fn: "storage_key_fn S (key_calls W) = Inr (PStr k)"
  show "create_result_record E W S (Some []) obj ex
          = (W\<lparr>key_calls := Suc (key_calls W)\<rparr>,
             Inr \<lparr>metadata = \<lparr>ResultRecordMetadata.storage_key = Some k,
                     ResultRecordMetadata.expiration = ex,
                     ResultRecordMetadata.serializer = ResultStore.serializer S,
                     prefect_version = prefect_version_now E,
                     ResultRecordMetadata.storage_block_id = result_storage_block_id S\<rparr>,
                   result = obj\<rparr>)"
    using create_result_record_minted[OF fn] by (simp add: record_for_def)
  show "ResultStore_write E W S (Some []) obj ex holder
            = ResultStore__persist_result_record E (W\<lparr>key_calls := Suc (key_calls W)\<rparr>) S
                (record_for E S k obj ex) (holder_or_default E holder)"
    by (rule write_minted[OF fn])
  show "\<exists>W' S' r. create_result E W S obj (Some []) ex = ((W', S'), Inr r)
              \<and> key_calls W' = Suc (key_calls W)
              \<and> PersistedResult.storage_key r
                  = (case infer_path (case result_storage S of
                                        None \<Rightarrow> default_result_storage E | Some b \<Rightarrow> b) k of
                       Some u \<Rightarrow> if result_storage_block_id S' = None then u else k
                     | None \<Rightarrow> k)"
    using fn
    by (simp add: create_result_def mint_key_def PersistedResult_create_def Let_def)
next
  assume fn: "storage_key_fn S (key_calls W) = Inr (PStr k)"
    and c: "metadata_storage S = None
            \<and> (\<forall>lm. lock_manager S = Some lm \<longrightarrow>
                   locks W lm k = None \<or> locks W lm k = Some (holder_or_default E holder))
            \<and> serialize E (record_for E S k obj ex) = Inr content
            \<and> faults W (backing (storage_in_use E S)) k = None"
  from c have ms: "metadata_storage S = None"
    and lk: "\<forall>lm. lock_manager S = Some lm \<longrightarrow>
                   locks W lm k = None \<or> locks W lm k = Some (holder_or_default E holder)"
    and ser: "serialize E (record_for E S k obj ex) = Inr content"
    and nf: "faults W (backing (storage_in_use E S)) k = None"
    by blast+
  show "ResultStore_write E W S (Some []) obj ex holder
                 = ((W\<lparr>key_calls := Suc (key_calls W),
                        files := (files W)(backing (storage_in_use E S) :=
                                   (files W (backing (storage_in_use E S)))(k \<mapsto> content)),
                        io_log := io_log W @ [Write (backing (storage_in_use E S)) k content]\<rparr>,
                     S\<lparr>result_storage := Some (storage_in_use E S)\<rparr>), Inr ())"
    by (rule write_minted_stored[OF fn ms lk ser nf])
qed

text \<open>Witness for C10: on the test store \<^verbatim>\<open>write("", {"a": 1})\<close> mints \<open>minted-0\<close> and
  writes the record under it, and \<^verbatim>\<open>create_result\<close> with the empty key builds its
  reference from \<open>minted-0\<close>.\<close>

theorem empty_key_mints_witness:
  "storage_key_fn test_store (key_calls empty_world) = Inr (PStr ''minted-0'')
   \<and> metadata_storage test_store = None
   \<and> serialize sample_env (record_for sample_env test_store ''minted-0'' sample_value None)
       = Inr (render_json (sample_document ''minted-0''))
   \<and> faults empty_world (backing (storage_in_use sample_env test_store)) ''minted-0'' = None
   \<and> create_result_record sample_env empty_world test_store (Some []) sample_value None
       = (empty_world\<lparr>key_calls := 1\<rparr>, Inr (sample_record ''minted-0''))
   \<and> ResultStore_write sample_env empty_world test_store (Some []) sample_value None None
       = ((empty_world\<lparr>key_calls := 1,
             files := (files empty_world)(0 := (files empty_world 0)
                        (''minted-0'' \<mapsto> render_json (sample_document ''minted-0''))),
             io_log := [Write 0 ''minted-0'' (render_json (sample_document ''minted-0''))]\<rparr>,
           test_store), Inr ())
   \<and> (\<exists>W' S' r. create_result sample_env empty_world test_store sample_value (Some []) None
                    = ((W', S'), Inr r)
         \<and> key_calls W' = 1 \<and> PersistedResult.storage_key r = ''minted-0'')"
proof -
  have a: "storage_key_fn test_store (key_calls empty_world) = Inr (PStr ''minted-0'')"
    by (simp add: test_store_def empty_world_def digits_of.simps)
  have ms: "metadata_storage test_store = None"
    and lm: "lock_manager test_store = None"
    by (simp_all add: test_store_def)
  have rf: "record_for sample_env test_store ''minted-0'' sample_value None
              = sample_record ''minted-0''"
    by (simp add: record_for_def sample_record_def sample_metadata_def test_store_def
        sample_env_def test_env_def result_storage_block_id_def test_block_def)
  have ser: "serialize sample_env (record_for sample_env test_store ''minted-0'' sample_value None)
       = Inr (render_json (sample_document ''minted-0''))"
    by (simp only: rf sample_serialize)
  have su: "storage_in_use sample_env test_store = test_block 0"
    by (simp add: storage_in_use_def test_store_def)
  have nf: "faults empty_world (backing (storage_in_use sample_env test_store)) ''minted-0'' = None"
    by (simp add: empty_world_def)
  have lk: "\<forall>lm. lock_manager test_store = Some lm \<longrightarrow>
              locks empty_world lm ''minted-0'' = None
              \<or> locks empty_world lm ''minted-0'' = Some (holder_or_default sample_env None)"
    by (simp add: lm)
  have c: "result_storage test_store = Some (test_block 0)"
    "ResultStore.serializer test_store = json_serializer"
    "result_storage_block_id test_store = None"
    by (simp_all add: test_store_def result_storage_block_id_def test_block_def)
  have d: "infer_path (test_block 0) ''minted-0'' = None"
    by (simp add: infer_path_def test_block_def)
  have e: "key_calls empty_world = 0" "io_log empty_world = []" "backing (test_block 0) = 0"
    "test_store\<lparr>result_storage := Some (test_block 0)\<rparr> = test_store"
    by (simp_all add: empty_world_def test_block_def test_store_def)
  note t = empty_key_mints[of sample_env empty_world test_store sample_value None None "''minted-0''"
      "render_json (sample_document ''minted-0'')"]
  from t a have f: "create_result_record sample_env empty_world test_store (Some []) sample_value None
       = (empty_world\<lparr>key_calls := Suc (key_calls empty_world)\<rparr>,
          Inr \<lparr>metadata = \<lparr>ResultRecordMetadata.storage_key = Some ''minted-0'',
                     ResultRecordMetadata.expiration = None,
                     ResultRecordMetadata.serializer = ResultStore.serializer test_store,
                     prefect_version = prefect_version_now sample_env,
                     ResultRecordMetadata.storage_block_id = result_storage_block_id test_store\<rparr>,
                   result = sample_value\<rparr>)"
    by blast
  from t a ms lk ser nf
  have w: "ResultStore_write sample_env empty_world test_store (Some []) sample_value None None
       = ((empty_world\<lparr>key_calls := Suc (key_calls empty_world),
             files := (files empty_world)(backing (storage_in_use sample_env test_store) :=
                        (files empty_world (backing (storage_in_use sample_env test_store)))
                        (''minted-0'' \<mapsto> render_json (sample_document ''minted-0''))),
             io_log := io_log empty_world
                @ [Write (backing (storage_in_use sample_env test_store)) ''minted-0''
                     (render_json (sample_document ''minted-0''))]\<rparr>,
           test_store\<lparr>result_storage := Some (storage_in_use sample_env test_store)\<rparr>), Inr ())"
    by blast
  from t a
  have g: "\<exists>W' S' r. create_result sample_env empty_world test_store sample_value (Some []) None
                    = ((W', S'), Inr r)
              \<and> key_calls W' = Suc (key_calls empty_world)
              \<and> PersistedResult.storage_key r
                  = (case infer_path (case result_storage test_store of
                                        None \<Rightarrow> default_result_storage sample_env | Some b \<Rightarrow> b)
                            ''minted-0'' of
                       Some u \<Rightarrow> if result_storage_block_id S' = None then u else ''minted-0''
                     | None \<Rightarrow> ''minted-0'')"
    by blast
  have f': "create_result_record sample_env empty_world test_store (Some []) sample_value None
       = (empty_world\<lparr>key_calls := 1\<rparr>, Inr (sample_record ''minted-0''))"
    using f rf by (simp add: record_for_def e)
  have w': "ResultStore_write sample_env empty_world test_store (Some []) sample_value None None
       = ((empty_world\<lparr>key_calls := 1,
             files := (files empty_world)(0 := (files empty_world 0)
                        (''minted-0'' \<mapsto> render_json (sample_document ''minted-0''))),
             io_log := [Write 0 ''minted-0'' (render_json (sample_document ''minted-0''))]\<rparr>,
           test_store), Inr ())"
    using w by (simp add: su e)
  have g': "\<exists>W' S' r. create_result sample_env empty_world test_store sample_value (Some []) None
                    = ((W', S'), Inr r)
         \<and> key_calls W' = 1 \<and> PersistedResult.storage_key r = ''minted-0''"
    using g by (simp add: c d e)
  show ?thesis using a ms ser nf f' w' g' by simp
qed

section \<open>Writing a reference twice\<close>

lemma create_result_record_io:
  "create_result_record E W S key v ex = (W1, r) \<Longrightarrow> io_log W1 = io_log W"
  by (auto simp: create_result_record_def mint_key_def split: option.splits if_splits sum.splits)

lemma write_path_io:
  "write_path W b k c = (W1, r) \<Longrightarrow> io_log W1 = io_log W @ [Write (backing b) k c]"
  by (auto simp: write_path_def split: option.splits)

lemma persist_combined_io:
  assumes "metadata_storage S = None"
    and "ResultStore__persist_result_record E W S rr h = ((W1, S1), Inr ())"
  shows "\<exists>b k c. io_log W1 = io_log W @ [Write b k c]"
  using assms
  by (auto simp: ResultStore__persist_result_record_def Let_def
      split: option.splits if_splits sum.splits prod.splits dest!: write_path_io)

lemma store_write_io:
  assumes "metadata_storage S = None"
    and "ResultStore_write E W S key v ex h = ((W1, S1), Inr ())"
  shows "\<exists>b k c. io_log W1 = io_log W @ [Write b k c]"
proof -
  obtain W0 r where c: "create_result_record E W S key v ex = (W0, r)"
    by (cases "create_result_record E W S key v ex")
  with assms(2) obtain rr where r: "r = Inr rr"
    and p: "persist_result_record E W0 S rr (Some (holder_or_default E h)) = ((W1, S1), Inr ())"
    by (cases r) (auto simp: ResultStore_write_def)
  from persist_combined_io[OF assms(1) p[unfolded persist_result_record_def]]
  show ?thesis using create_result_record_io[OF c] by simp
qed

lemma PersistedResult_write_returns:
  assumes "PersistedResult_write E W self obj = ((W1, self1), Inr ())"
  shows "((priv_persisted self \<or> serialize_to_none self) \<and> W1 = W \<and> self1 = self)
       \<or> (\<not> priv_persisted self \<and> \<not> serialize_to_none self \<and> priv_persisted self1
           \<and> (\<exists>S k v ex S1. metadata_storage S = None
                  \<and> ResultStore_write E W S k v ex None = ((W1, S1), Inr ())))"
proof (cases "priv_persisted self \<or> serialize_to_none self")
  case True
  then show ?thesis using assms by (auto simp: PersistedResult_write_def)
next
  case False
  then have np: "\<not> priv_persisted self" and nn: "\<not> serialize_to_none self" by simp_all
  obtain v where v: "(case obj of Some v \<Rightarrow> Some v | None \<Rightarrow> priv_cache self) = Some v"
    and hc: "\<not> (obj = None \<and> \<not> has_cached_object self)"
    using assms np nn
    by (cases "case obj of Some v \<Rightarrow> Some v | None \<Rightarrow> priv_cache self")
       (auto simp: PersistedResult_write_def split: if_splits)
  obtain self0 b where g: "get_storage_block E self = (self0, Inr b)"
    using assms np nn v hc
    by (cases "get_storage_block E self")
       (auto simp: PersistedResult_write_def split: sum.splits)
  obtain ser where ser: "(case priv_serializer self0 of Some ser \<Rightarrow> Inr ser
               | None \<Rightarrow> serializer_of_type E (serializer_type self0)) = Inr ser"
    using assms np nn v hc g
    by (cases "case priv_serializer self0 of Some ser \<Rightarrow> Inr ser
               | None \<Rightarrow> serializer_of_type E (serializer_type self0)")
       (auto simp: PersistedResult_write_def)
  let ?S = "new_ResultStore E (Some b) ser"
  obtain W' S' r where w: "ResultStore_write E W ?S (Some (PersistedResult.storage_key self0)) v
       (PersistedResult.expiration self0) None = ((W', S'), r)"
    by (metis prod.exhaust)
  have "r = Inr () \<and> W' = W1 \<and> priv_persisted self1"
    using assms np nn v hc g ser w
    by (cases r) (auto simp: PersistedResult_write_def)
  then have "ResultStore_write E W ?S (Some (PersistedResult.storage_key self0)) v
       (PersistedResult.expiration self0) None = ((W1, S'), Inr ())"
    and "priv_persisted self1"
    using w by simp_all
  moreover have "metadata_storage ?S = None" by (simp add: new_ResultStore_def)
  ultimately show ?thesis using np nn by blast
qed

text \<open>
  Claim C2, as amended. \<^verbatim>\<open>PersistedResult.write\<close> is a no-op, with no backend call and
  the reference unchanged, whenever \<^verbatim>\<open>_persisted\<close> or \<^verbatim>\<open>serialize_to_none\<close> is set. After
  a call that returns normally, a further call is a no-op. So two calls in a row, the
  first of which returns normally, make exactly one backend call, a write, when the
  reference was not persisted and had \<^verbatim>\<open>serialize_to_none\<close> unset, and none otherwise.
\<close>

theorem persisted_write_idempotent:
  "(priv_persisted self \<or> serialize_to_none self \<longrightarrow>
       PersistedResult_write E W self obj = ((W, self), Inr ()))
   \<and> (PersistedResult_write E W self obj = ((W1, self1), Inr ()) \<longrightarrow>
        PersistedResult_write E W1 self1 obj' = ((W1, self1), Inr ())
        \<and> (if priv_persisted self \<or> serialize_to_none self then io_log W1 = io_log W
            else \<exists>b k c. io_log W1 = io_log W @ [Write b k c]))"
proof (intro conjI impI)
  assume "priv_persisted self \<or> serialize_to_none self"
  then show "PersistedResult_write E W self obj = ((W, self), Inr ())"
    by (auto simp: PersistedResult_write_def)
next
  assume a: "PersistedResult_write E W self obj = ((W1, self1), Inr ())"
  from PersistedResult_write_returns[OF a]
  have "priv_persisted self1 \<or> serialize_to_none self1" by auto
  then show "PersistedResult_write E W1 self1 obj' = ((W1, self1), Inr ())"
    by (auto simp: PersistedResult_write_def)
next
  assume a: "PersistedResult_write E W self obj = ((W1, self1), Inr ())"
  from PersistedResult_write_returns[OF a]
  show "if priv_persisted self \<or> serialize_to_none self then io_log W1 = io_log W
        else \<exists>b k c. io_log W1 = io_log W @ [Write b k c]"
    by (auto dest: store_write_io)
qed

text \<open>Witness for C2: the pending reference is written by the first call, with one
  write to the backend, and the second call changes nothing.\<close>

theorem persisted_write_idempotent_witness:
  "PersistedResult_write sample_env empty_world pending_reference None
     = ((empty_world\<lparr>files := (files empty_world)(0 := (files empty_world 0)
                          (''k'' \<mapsto> render_json (sample_document ''k''))),
                     io_log := [Write 0 ''k'' (render_json (sample_document ''k''))]\<rparr>,
         pending_reference\<lparr>priv_persisted := True\<rparr>), Inr ())
   \<and> PersistedResult_write sample_env
        (empty_world\<lparr>files := (files empty_world)(0 := (files empty_world 0)
                          (''k'' \<mapsto> render_json (sample_document ''k''))),
                     io_log := [Write 0 ''k'' (render_json (sample_document ''k''))]\<rparr>)
        (pending_reference\<lparr>priv_persisted := True\<rparr>) None
     = ((empty_world\<lparr>files := (files empty_world)(0 := (files empty_world 0)
                          (''k'' \<mapsto> render_json (sample_document ''k''))),
                     io_log := [Write 0 ''k'' (render_json (sample_document ''k''))]\<rparr>,
         pending_reference\<lparr>priv_persisted := True\<rparr>), Inr ())"
proof -
  let ?blob = "render_json (sample_document ''k'')"
  let ?W1 = "empty_world\<lparr>files := (files empty_world)(0 := (files empty_world 0)(''k'' \<mapsto> ?blob)),
                         io_log := [Write 0 ''k'' ?blob]\<rparr>"
  let ?S = "new_ResultStore sample_env (Some (test_block 0)) json_serializer"
  have jd: "json_dumps sample_env = render_json"
    and pv: "prefect_version_now sample_env = ''3.0.0''"
    by (simp_all add: sample_env_def test_env_def)
  have sm: "ResultRecordMetadata.serializer (sample_metadata ''k'') = json_serializer"
    and sk: "ResultRecordMetadata.storage_key (metadata (sample_record ''k'')) = Some ''k''"
    by (simp_all add: sample_metadata_def sample_record_def)
  have ser: "serialize sample_env (sample_record ''k'') = Inr ?blob"
    by (simp add: serialize_def serialize_result_def sample_record_def sm sample_dumps
        sample_utf8 sample_document_def jd)
  have c: "create_result_record sample_env empty_world ?S (Some ''k'') sample_value None
             = (empty_world, Inr (sample_record ''k''))"
    by (simp add: create_result_record_def validate_optional_def validate_str_def
        new_ResultStore_def sample_record_def sample_metadata_def pv
        result_storage_block_id_def test_block_def)
  have ms: "metadata_storage ?S = None"
    and rs: "test_block 0 = (case result_storage ?S of
                None \<Rightarrow> default_result_storage sample_env | Some b \<Rightarrow> b)"
    and same: "?S\<lparr>result_storage := Some (test_block 0)\<rparr> = ?S"
    and nc: "\<not> (lock_manager ?S \<noteq> None \<and> is_locked empty_world ?S ''k'' = Inr True
            \<and> is_lock_holder sample_env empty_world ?S ''k''
                 (Some (holder_or_default sample_env (Some (holder_or_default sample_env None))))
               \<noteq> Inr True)"
    by (simp_all add: new_ResultStore_def)
  have nf: "faults empty_world (backing (test_block 0)) ''k'' = None"
    by (simp add: empty_world_def)
  have w1: "empty_world\<lparr>files := (files empty_world)(backing (test_block 0) :=
                (files empty_world (backing (test_block 0)))(''k'' \<mapsto> ?blob)),
              io_log := io_log empty_world @ [Write (backing (test_block 0)) ''k'' ?blob]\<rparr> = ?W1"
    by (simp add: empty_world_def test_block_def)
  have p: "ResultStore__persist_result_record sample_env empty_world ?S (sample_record ''k'')
             (holder_or_default sample_env (Some (holder_or_default sample_env None)))
           = ((?W1, ?S), Inr ())"
    by (simp only: persist_combined[OF sk ms nc ser rs nf] same w1)
  have w: "ResultStore_write sample_env empty_world ?S (Some ''k'') sample_value None None
      = ((?W1, ?S), Inr ())"
    by (simp only: ResultStore_write_def c persist_result_record_def p Let_def prod.case sum.case)
  have f: "priv_persisted pending_reference = False" "serialize_to_none pending_reference = False"
    "priv_cache pending_reference = Some sample_value"
    "priv_storage_block pending_reference = Some (test_block 0)"
    "priv_serializer pending_reference = Some json_serializer"
    "PersistedResult.storage_key pending_reference = ''k''"
    "PersistedResult.expiration pending_reference = None"
    "priv_should_cache_object pending_reference = True"
    by (simp_all add: pending_reference_def disabled_reference_def)
  have q: "pending_reference\<lparr>priv_persisted := True, priv_cache := Some sample_value\<rparr>
             = pending_reference\<lparr>priv_persisted := True\<rparr>"
    by (simp add: pending_reference_def disabled_reference_def)
  have r1: "PersistedResult_write sample_env empty_world pending_reference None
     = ((?W1, pending_reference\<lparr>priv_persisted := True\<rparr>), Inr ())"
    by (simp add: PersistedResult_write_def has_cached_object_def get_storage_block_def f w q)
  from persisted_write_idempotent[of pending_reference sample_env empty_world None
      ?W1 "pending_reference\<lparr>priv_persisted := True\<rparr>" None] r1
  have "PersistedResult_write sample_env ?W1 (pending_reference\<lparr>priv_persisted := True\<rparr>) None
     = ((?W1, pending_reference\<lparr>priv_persisted := True\<rparr>), Inr ())"
    by blast
  with r1 show ?thesis by blast
qed

text \<open>Counterexample to C2 as stated (two calls make exactly one storage write): on the
  reference with persistence disabled both calls return normally and the log of backend
  calls stays empty.\<close>

theorem write_twice_disabled_reference:
  "PersistedResult_write sample_env empty_world disabled_reference None
     = ((empty_world, disabled_reference), Inr ())
   \<and> PersistedResult_write sample_env
        (fst (fst (PersistedResult_write sample_env empty_world disabled_reference None)))
        (snd (fst (PersistedResult_write sample_env empty_world disabled_reference None))) None
     = ((empty_world, disabled_reference), Inr ())
   \<and> io_log empty_world = []"
  by (simp add: PersistedResult_write_def disabled_reference_def empty_world_def)

section \<open>Where the parameters are stored\<close>

text \<open>
  Claim C9 on \<^verbatim>\<open>store_parameters\<close>: the payload is not stored under the storage key that
  its metadata records. For the identifier \<open>9d3c0b3e-6f1a-4c55-8e0f-0d1b6a0c2f11\<close> the
  only backend call writes the record under \<open>parameters/\<close> followed by the identifier,
  the metadata inside the record names the bare identifier as its storage key, nothing is
  stored under that key, and reading it raises the backend's error for a missing path.
\<close>

theorem store_parameters_key_mismatch:
  "store_parameters sample_env empty_world test_store ''9d3c0b3e-6f1a-4c55-8e0f-0d1b6a0c2f11''
       [(''a'', PInt 1)]
     = (empty_world
          \<lparr>files := (files empty_world)(0 := (files empty_world 0)
              (''parameters/9d3c0b3e-6f1a-4c55-8e0f-0d1b6a0c2f11''
                 \<mapsto> render_json (sample_document ''9d3c0b3e-6f1a-4c55-8e0f-0d1b6a0c2f11''))),
           io_log := [Write 0 ''parameters/9d3c0b3e-6f1a-4c55-8e0f-0d1b6a0c2f11''
              (render_json (sample_document ''9d3c0b3e-6f1a-4c55-8e0f-0d1b6a0c2f11''))]\<rparr>,
        Inr ())
   \<and> ResultRecordMetadata.storage_key (sample_metadata ''9d3c0b3e-6f1a-4c55-8e0f-0d1b6a0c2f11'')
       = Some ''9d3c0b3e-6f1a-4c55-8e0f-0d1b6a0c2f11''
   \<and> files (fst (store_parameters sample_env empty_world test_store
          ''9d3c0b3e-6f1a-4c55-8e0f-0d1b6a0c2f11'' [(''a'', PInt 1)])) 0
        ''9d3c0b3e-6f1a-4c55-8e0f-0d1b6a0c2f11'' = None
   \<and> map_option snd
        (ResultStore_read sample_env
           (fst (store_parameters sample_env empty_world test_store
              ''9d3c0b3e-6f1a-4c55-8e0f-0d1b6a0c2f11'' [(''a'', PInt 1)]))
           test_store ''9d3c0b3e-6f1a-4c55-8e0f-0d1b6a0c2f11'' None)
       = Some (Inl OSError)"
proof -
  let ?id = "''9d3c0b3e-6f1a-4c55-8e0f-0d1b6a0c2f11''"
  let ?blob = "render_json (sample_document ?id)"
  let ?W1 = "empty_world\<lparr>files := (files empty_world)(0 := (files empty_world 0)
                (''parameters/'' @ ?id \<mapsto> ?blob)),
              io_log := [Write 0 (''parameters/'' @ ?id) ?blob]\<rparr>"
  have jd: "json_dumps sample_env = render_json"
    and pv: "prefect_version_now sample_env = ''3.0.0''"
    by (simp_all add: sample_env_def test_env_def)
  have sm: "ResultRecordMetadata.serializer (sample_metadata ?id) = json_serializer"
    by (simp add: sample_metadata_def)
  have ser: "serialize sample_env (sample_record ?id) = Inr ?blob"
    by (simp add: serialize_def serialize_result_def sample_record_def sm sample_dumps
        sample_utf8 sample_document_def jd)
  have rec: "\<lparr>metadata = \<lparr>ResultRecordMetadata.storage_key = Some ?id,
                 ResultRecordMetadata.expiration = None,
                 ResultRecordMetadata.serializer = ResultStore.serializer test_store,
                 prefect_version = prefect_version_now sample_env,
                 ResultRecordMetadata.storage_block_id = None\<rparr>,
               result = PDict [(''a'', PInt 1)]\<rparr> = sample_record ?id"
    by (simp add: sample_record_def sample_metadata_def sample_value_def pv test_store_def)
  have rs: "result_storage test_store = Some (test_block 0)"
    by (simp add: test_store_def)
  have wp: "write_path empty_world (test_block 0) (''parameters/'' @ ?id) ?blob = (?W1, Inr ())"
    by (simp add: write_path_def empty_world_def test_block_def)
  have sp: "store_parameters sample_env empty_world test_store ?id [(''a'', PInt 1)] = (?W1, Inr ())"
    unfolding store_parameters_def rec Let_def by (simp only: rs ser wp option.case sum.case)
  have sk: "ResultRecordMetadata.storage_key (sample_metadata ?id) = Some ?id"
    by (simp add: sample_metadata_def)
  have nothing: "files ?W1 0 ?id = None"
    by (simp add: empty_world_def)
  have ne: "files ?W1 (backing (test_block 0)) ?id = None"
    "faults ?W1 (backing (test_block 0)) ?id = None"
    by (simp_all add: empty_world_def test_block_def)
  have rd: "map_option snd (ResultStore_read sample_env ?W1 test_store ?id None) = Some (Inl OSError)"
    using ne
    by (simp add: ResultStore_read_def ResultStore__read_def read_path_def test_store_def Let_def)
  have nothing0: "files empty_world 0 ?id = None"
    by (simp add: empty_world_def)
  show ?thesis
    unfolding sp using sk nothing0 rd by simp
qed

end
